theory Spec2Isabelle
  imports Complex_Main "HOL-Library.Word"
begin

section \<open>SampleHeap: the sampling layer of \<^verbatim>\<open>src/include/sampleheap.hpp\<close>\<close>

text \<open>
  The class template \<^verbatim>\<open>SampleHeap<MallocSamplingRateBytes, FreeSamplingRateBytes, SuperHeap>\<close>
  wraps an allocator. Its members are modelled as a record that every member function
  takes and returns. The machine is taken to be an LP64 one: \<^verbatim>\<open>size_t\<close>, \<^verbatim>\<open>uint64_t\<close>
  and \<^verbatim>\<open>void*\<close> are 64-bit words (the null pointer is \<open>0\<close>) and \<^verbatim>\<open>int\<close> is a 32-bit word.
  Calls are taken one after the other, as one thread makes them (\<^verbatim>\<open>USE_ATOMICS\<close> is 0 and
  the class takes no lock), and assertions are compiled in (\<^verbatim>\<open>NDEBUG\<close> is not defined).
\<close>

type_synonym size_t = "64 word"
type_synonym ptr = "64 word"
type_synonym c_int = "32 word"

text \<open>\<^verbatim>\<open>enum AllocSignal { MallocSignal = SIGXCPU, FreeSignal = SIGXFSZ }\<close>\<close>

datatype AllocSignal = MallocSignal | FreeSignal

text \<open>
  The line that \<^verbatim>\<open>writeCount\<close> formats with
  \<^verbatim>\<open>"%c,%lu,%lu,%f,%d,%p,%s,%d,%d\n\n"\<close>, kept as its nine arguments in order. The fourth
  argument is the single-precision quotient \<^verbatim>\<open>(float)_pythonCount / (_pythonCount + _cCount)\<close>;
  the record keeps the two operands of that division (\<open>rec_num\<close>, \<open>rec_den\<close>), each a
  64-bit unsigned value, so that nothing of the code's integer arithmetic is lost.
  Truncation of the text to \<^verbatim>\<open>SampleFile::MAX_BUFSIZE\<close> is not part of the model.
\<close>

record sample_record =
  rec_kind :: char
  rec_seq :: "64 word"
  rec_count :: "64 word"
  rec_num :: "64 word"
  rec_den :: "64 word"
  rec_pid :: c_int
  rec_ptr :: ptr
  rec_filename :: string
  rec_lineno :: c_int
  rec_bytei :: c_int

text \<open>
  The exact quotient of the two operands; the \<^verbatim>\<open>%f\<close> field of the line is its rounding
  to single precision (and is infinite or NaN when the denominator is zero, where this
  function is not meant).
\<close>

definition rec_fraction :: "sample_record \<Rightarrow> rat" where
  "rec_fraction r = of_nat (unat (rec_num r)) / of_nat (unat (rec_den r))"

text \<open>
  The members of the class, the two function-local static counters
  \<^verbatim>\<open>mallocTriggered()\<close> and \<^verbatim>\<open>freeTriggered()\<close>, the state of the base class
  (\<open>superHeap\<close>), and the two effects on the outside: the lines appended by
  \<^verbatim>\<open>getSampleFile().writeToFile\<close> (\<open>sampleFile\<close>, oldest first) and the signals raised
  (\<open>raised\<close>, oldest first).
\<close>

record ('h, 'ms, 'fs) SampleHeap =
  superHeap :: 'h
  mallocSampler :: 'ms
  freeSampler :: 'fs
  mallocTriggered :: "64 word"
  freeTriggered :: "64 word"
  pythonCount :: "64 word"
  cCount :: "64 word"
  lastMallocTrigger :: ptr
  freedLastMallocTrigger :: bool
  sampleFile :: "sample_record list"
  raised :: "AllocSignal list"

text \<open>
  What the header includes and this file does not define is a parameter: the base class
  \<^verbatim>\<open>SuperHeap\<close> (\<^verbatim>\<open>malloc\<close>, \<^verbatim>\<open>memalign\<close>, \<^verbatim>\<open>getSize\<close>, \<^verbatim>\<open>free\<close>), the class
  \<^verbatim>\<open>Sampler\<close> of \<^verbatim>\<open>sampler.hpp\<close> (\<^verbatim>\<open>sample\<close>, \<^verbatim>\<open>unsample\<close>; one instance per
  sampling rate), \<^verbatim>\<open>getpid()\<close>, and the build flag \<^verbatim>\<open>SCALENE_DISABLE_SIGNALS\<close>.
\<close>

record ('h, 'ms, 'fs) collaborators =
  SuperHeap_malloc :: "'h \<Rightarrow> size_t \<Rightarrow> ptr \<times> 'h"
  SuperHeap_memalign :: "'h \<Rightarrow> size_t \<Rightarrow> size_t \<Rightarrow> ptr \<times> 'h"
  SuperHeap_getSize :: "'h \<Rightarrow> ptr \<Rightarrow> size_t"
  SuperHeap_free :: "'h \<Rightarrow> ptr \<Rightarrow> 'h"
  mallocSampler_sample :: "'ms \<Rightarrow> size_t \<Rightarrow> size_t \<times> 'ms"
  mallocSampler_unsample :: "'ms \<Rightarrow> size_t \<Rightarrow> 'ms"
  freeSampler_sample :: "'fs \<Rightarrow> size_t \<Rightarrow> size_t \<times> 'fs"
  getpid :: c_int
  SCALENE_DISABLE_SIGNALS :: bool

text \<open>
  The global function pointer \<^verbatim>\<open>p_whereInPython\<close> of \<^verbatim>\<open>pywhere.hpp\<close>, as one call
  sees it: \<open>None\<close> is the null pointer, \<open>Some None\<close> a resolver that returns \<^verbatim>\<open>false\<close>,
  \<open>Some (Some (filename, lineno, bytei))\<close> one that returns \<^verbatim>\<open>true\<close> and has filled its
  three reference arguments.
\<close>

type_synonym whereInPython = "(string \<times> c_int \<times> c_int) option option"

text \<open>The three \<^verbatim>\<open>assert\<close>s of the class; a failed assertion aborts the call.\<close>

datatype assertion =
  Assert_realSize
| Assert_realSize_ge_sz
| Assert_sz_lt_16_or_realSize_le_2sz

text \<open>
  The heap of a fresh process, after the constructor:
  \<^verbatim>\<open>_lastMallocTrigger(nullptr), _freedLastMallocTrigger(false)\<close>, both byte counters \<^verbatim>\<open>{0}\<close>,
  both static counters \<^verbatim>\<open>{0}\<close>, nothing written and nothing raised yet. (The constructor also
  sets the disposition of the two signals; no property below depends on it.)
\<close>

definition SampleHeap_init :: "'h \<Rightarrow> 'ms \<Rightarrow> 'fs \<Rightarrow> ('h, 'ms, 'fs) SampleHeap" where
  "SampleHeap_init h ms fs =
     \<lparr> superHeap = h, mallocSampler = ms, freeSampler = fs,
       mallocTriggered = 0, freeTriggered = 0, pythonCount = 0, cCount = 0,
       lastMallocTrigger = 0, freedLastMallocTrigger = False,
       sampleFile = [], raised = [] \<rparr>"

subsection \<open>The member functions\<close>

definition writeCount ::
  "('h, 'ms, 'fs) collaborators \<Rightarrow> AllocSignal \<Rightarrow> 64 word \<Rightarrow> ptr \<Rightarrow> string \<Rightarrow> c_int \<Rightarrow> c_int
     \<Rightarrow> ('h, 'ms, 'fs) SampleHeap \<Rightarrow> ('h, 'ms, 'fs) SampleHeap" where
  "writeCount env sig cnt p filename lineno bytei s =
     (let s1 = (if pythonCount s = 0 then s\<lparr>pythonCount := 1\<rparr> else s);
          buf = \<lparr> rec_kind = (if sig = MallocSignal then CHR ''M''
                              else if freedLastMallocTrigger s1 then CHR ''f'' else CHR ''F''),
                  rec_seq = mallocTriggered s1 + freeTriggered s1,
                  rec_count = cnt,
                  rec_num = pythonCount s1,
                  rec_den = pythonCount s1 + cCount s1,
                  rec_pid = getpid env,
                  rec_ptr = (if freedLastMallocTrigger s1 then lastMallocTrigger s1 else p),
                  rec_filename = filename,
                  rec_lineno = lineno,
                  rec_bytei = bytei \<rparr>;
          s2 = s1\<lparr>freedLastMallocTrigger := False\<rparr>
      in s2\<lparr>sampleFile := sampleFile s2 @ [buf]\<rparr>)"

text \<open>\<^verbatim>\<open>raise(sig)\<close> under \<^verbatim>\<open>#if !SCALENE_DISABLE_SIGNALS\<close>.\<close>

definition raise_sig ::
  "('h, 'ms, 'fs) collaborators \<Rightarrow> AllocSignal \<Rightarrow> ('h, 'ms, 'fs) SampleHeap
     \<Rightarrow> ('h, 'ms, 'fs) SampleHeap" where
  "raise_sig env sig s =
     (if SCALENE_DISABLE_SIGNALS env then s else s\<lparr>raised := raised s @ [sig]\<rparr>)"

definition process_malloc ::
  "('h, 'ms, 'fs) collaborators \<Rightarrow> whereInPython \<Rightarrow> size_t \<Rightarrow> ptr
     \<Rightarrow> ('h, 'ms, 'fs) SampleHeap \<Rightarrow> ('h, 'ms, 'fs) SampleHeap" where
  "process_malloc env wh sampleMalloc p s =
     (case wh of
        Some (Some (filename, lineno, bytei)) \<Rightarrow>
          (let s1 = writeCount env MallocSignal sampleMalloc p filename lineno bytei s;
               s2 = raise_sig env MallocSignal s1;
               s3 = s2\<lparr>lastMallocTrigger := p\<rparr>;
               s4 = s3\<lparr>freedLastMallocTrigger := False\<rparr>;
               s5 = s4\<lparr>pythonCount := 0\<rparr>;
               s6 = s5\<lparr>cCount := 0\<rparr>
           in s6\<lparr>mallocTriggered := mallocTriggered s6 + 1\<rparr>)
      | _ \<Rightarrow> s)"

text \<open>
  \<^verbatim>\<open>register_malloc(size_t realSize, void* ptr, bool inPythonAllocator = true)\<close>; the callers
  below pass the third argument as the source does (\<^verbatim>\<open>malloc\<close>: \<^verbatim>\<open>false\<close>; \<^verbatim>\<open>memalign\<close>: omitted,
  hence \<^verbatim>\<open>true\<close>).
\<close>

definition register_malloc ::
  "('h, 'ms, 'fs) collaborators \<Rightarrow> whereInPython \<Rightarrow> size_t \<Rightarrow> ptr \<Rightarrow> bool
     \<Rightarrow> ('h, 'ms, 'fs) SampleHeap \<Rightarrow> assertion + ('h, 'ms, 'fs) SampleHeap" where
  "register_malloc env wh realSize p inPythonAllocator s =
     (if realSize = 0 then Inl Assert_realSize
      else
        let (sampleMalloc, ms) = mallocSampler_sample env (mallocSampler s) realSize;
            s1 = s\<lparr>mallocSampler := ms\<rparr>;
            s2 = (if inPythonAllocator then s1\<lparr>pythonCount := pythonCount s1 + realSize\<rparr>
                  else s1\<lparr>cCount := cCount s1 + realSize\<rparr>)
        in Inr (if sampleMalloc \<noteq> 0 then process_malloc env wh sampleMalloc p s2 else s2))"

text \<open>
  \<^verbatim>\<open>MallocRecursionGuard g\<close> (of \<^verbatim>\<open>mallocrecursionguard.hpp\<close>) is a per-thread marker;
  what \<^verbatim>\<open>g.wasInMalloc()\<close> answers is an argument of each entry point.
\<close>

definition malloc ::
  "('h, 'ms, 'fs) collaborators \<Rightarrow> bool \<Rightarrow> whereInPython \<Rightarrow> size_t
     \<Rightarrow> ('h, 'ms, 'fs) SampleHeap \<Rightarrow> assertion + (ptr \<times> ('h, 'ms, 'fs) SampleHeap)" where
  "malloc env wasInMalloc wh sz s =
     (let (p, h) = SuperHeap_malloc env (superHeap s) sz;
          s1 = s\<lparr>superHeap := h\<rparr>
      in if p = 0 then Inr (0, s1)
         else if \<not> wasInMalloc then
           (let realSize = SuperHeap_getSize env h p
            in if realSize > 0 then
                 (case register_malloc env wh realSize p False s1 of
                    Inl a \<Rightarrow> Inl a
                  | Inr s2 \<Rightarrow> Inr (p, s2))
               else Inr (p, s1))
         else Inr (p, s1))"

definition process_free ::
  "('h, 'ms, 'fs) collaborators \<Rightarrow> whereInPython \<Rightarrow> size_t
     \<Rightarrow> ('h, 'ms, 'fs) SampleHeap \<Rightarrow> ('h, 'ms, 'fs) SampleHeap" where
  "process_free env wh sampleFree s =
     (case wh of
        Some (Some (filename, lineno, bytei)) \<Rightarrow>
          (let s1 = writeCount env FreeSignal sampleFree 0 filename lineno bytei s;
               s2 = raise_sig env MallocSignal s1
           in s2\<lparr>freeTriggered := freeTriggered s2 + 1\<rparr>)
      | _ \<Rightarrow> s)"

definition register_free ::
  "('h, 'ms, 'fs) collaborators \<Rightarrow> whereInPython \<Rightarrow> size_t \<Rightarrow> ptr
     \<Rightarrow> ('h, 'ms, 'fs) SampleHeap \<Rightarrow> ('h, 'ms, 'fs) SampleHeap" where
  "register_free env wh realSize p s =
     (let s1 = s\<lparr>mallocSampler := mallocSampler_unsample env (mallocSampler s) realSize\<rparr>;
          (sampleFree, fs) = freeSampler_sample env (freeSampler s1) realSize;
          s2 = s1\<lparr>freeSampler := fs\<rparr>;
          s3 = (if p \<noteq> 0 \<and> p = lastMallocTrigger s2
                then s2\<lparr>freedLastMallocTrigger := True\<rparr> else s2)
      in if sampleFree \<noteq> 0 then process_free env wh sampleFree s3 else s3)"

definition free ::
  "('h, 'ms, 'fs) collaborators \<Rightarrow> bool \<Rightarrow> whereInPython \<Rightarrow> ptr
     \<Rightarrow> ('h, 'ms, 'fs) SampleHeap \<Rightarrow> ('h, 'ms, 'fs) SampleHeap" where
  "free env wasInMalloc wh p s =
     (if p = 0 then s
      else
        let s1 = (if \<not> wasInMalloc
                  then register_free env wh (SuperHeap_getSize env (superHeap s) p) p s
                  else s)
        in s1\<lparr>superHeap := SuperHeap_free env (superHeap s1) p\<rparr>)"

definition memalign ::
  "('h, 'ms, 'fs) collaborators \<Rightarrow> bool \<Rightarrow> whereInPython \<Rightarrow> size_t \<Rightarrow> size_t
     \<Rightarrow> ('h, 'ms, 'fs) SampleHeap \<Rightarrow> assertion + (ptr \<times> ('h, 'ms, 'fs) SampleHeap)" where
  "memalign env wasInMalloc wh alignment sz s =
     (let (p, h) = SuperHeap_memalign env (superHeap s) alignment sz;
          s1 = s\<lparr>superHeap := h\<rparr>
      in if p = 0 then Inr (0, s1)
         else if \<not> wasInMalloc then
           (let realSize = SuperHeap_getSize env h p
            in if \<not> (realSize \<ge> sz) then Inl Assert_realSize_ge_sz
               else if \<not> (sz < 16 \<or> realSize \<le> 2 * sz)
                 then Inl Assert_sz_lt_16_or_realSize_le_2sz
               else
                 (case register_malloc env wh realSize p True s1 of
                    Inl a \<Rightarrow> Inl a
                  | Inr s2 \<Rightarrow> Inr (p, s2)))
         else Inr (p, s1))"

subsection \<open>Sequences of calls\<close>

text \<open>
  A call of the public interface, with what the recursion guard answers and what
  \<^verbatim>\<open>p_whereInPython\<close> is and returns during that call.
\<close>

datatype call = Malloc size_t | Free ptr | Memalign size_t size_t

fun api_step ::
  "('h, 'ms, 'fs) collaborators \<Rightarrow> bool \<times> whereInPython \<times> call
     \<Rightarrow> ('h, 'ms, 'fs) SampleHeap \<Rightarrow> assertion + ('h, 'ms, 'fs) SampleHeap" where
  "api_step env (wasInMalloc, wh, Malloc sz) s =
     (case malloc env wasInMalloc wh sz s of Inl a \<Rightarrow> Inl a | Inr (p, s') \<Rightarrow> Inr s')"
| "api_step env (wasInMalloc, wh, Free p) s = Inr (free env wasInMalloc wh p s)"
| "api_step env (wasInMalloc, wh, Memalign alignment sz) s =
     (case memalign env wasInMalloc wh alignment sz s of Inl a \<Rightarrow> Inl a | Inr (p, s') \<Rightarrow> Inr s')"

fun run ::
  "('h, 'ms, 'fs) collaborators \<Rightarrow> (bool \<times> whereInPython \<times> call) list
     \<Rightarrow> ('h, 'ms, 'fs) SampleHeap \<Rightarrow> assertion + ('h, 'ms, 'fs) SampleHeap" where
  "run env [] s = Inr s"
| "run env (c # cs) s = (case api_step env c s of Inl a \<Rightarrow> Inl a | Inr s' \<Rightarrow> run env cs s')"

text \<open>The lines in the sample file after a sequence of calls (\<open>None\<close>: an assertion failed).\<close>

definition run_file ::
  "('h, 'ms, 'fs) collaborators \<Rightarrow> (bool \<times> whereInPython \<times> call) list
     \<Rightarrow> ('h, 'ms, 'fs) SampleHeap \<Rightarrow> sample_record list option" where
  "run_file env cs s = (case run env cs s of Inl a \<Rightarrow> None | Inr s' \<Rightarrow> Some (sampleFile s'))"

subsection \<open>Test collaborators\<close>

text \<open>
  A deterministic sampler that replays a script: each call of \<^verbatim>\<open>sample\<close> returns the next
  entry (\<open>0\<close>: no trigger) and \<open>0\<close> once the script is used up; \<^verbatim>\<open>unsample\<close> does nothing.
\<close>

fun replay_sample :: "size_t list \<Rightarrow> size_t \<Rightarrow> size_t \<times> size_t list" where
  "replay_sample [] n = (0, [])"
| "replay_sample (x # xs) n = (x, xs)"

text \<open>
  An allocator that hands out a scripted list of addresses, one per \<^verbatim>\<open>malloc\<close> or
  \<^verbatim>\<open>memalign\<close>, and fails (returns the null pointer) once the script is used up; every
  block has delivered size \<open>rs\<close>. Process id 7, signals enabled.
\<close>

fun replay_alloc :: "ptr list \<Rightarrow> ptr \<times> ptr list" where
  "replay_alloc [] = (0, [])"
| "replay_alloc (a # as) = (a, as)"

definition fake_env :: "size_t \<Rightarrow> (ptr list, size_t list, size_t list) collaborators" where
  "fake_env rs =
     \<lparr> SuperHeap_malloc = (\<lambda>h sz. replay_alloc h),
       SuperHeap_memalign = (\<lambda>h alignment sz. replay_alloc h),
       SuperHeap_getSize = (\<lambda>h q. rs),
       SuperHeap_free = (\<lambda>h q. h),
       mallocSampler_sample = replay_sample,
       mallocSampler_unsample = (\<lambda>ms n. ms),
       freeSampler_sample = replay_sample,
       getpid = 7,
       SCALENE_DISABLE_SIGNALS = False \<rparr>"

definition in_python :: whereInPython where
  "in_python = Some (Some (''a.py'', 3, 0))"

text \<open>The line that a call of \<^verbatim>\<open>writeCount\<close> hands to \<^verbatim>\<open>writeToFile\<close>.\<close>

definition formatted ::
  "('h, 'ms, 'fs) collaborators \<Rightarrow> AllocSignal \<Rightarrow> 64 word \<Rightarrow> ptr \<Rightarrow> string \<Rightarrow> c_int \<Rightarrow> c_int
     \<Rightarrow> ('h, 'ms, 'fs) SampleHeap \<Rightarrow> sample_record" where
  "formatted env sig cnt p fname lno bi s = last (sampleFile (writeCount env sig cnt p fname lno bi s))"

subsection \<open>The specification's reading of the assertions in \<^verbatim>\<open>memalign\<close>\<close>

text \<open>
  Written from the specification's sentence, for comparison with the code: ``delivered size
  \<open>\<ge>\<close> requested size; for requests smaller than 16 bytes, delivered size \<open>\<le>\<close> 2\<open>\<times>\<close>
  requested size''.
\<close>

definition spec_memalign_condition :: "size_t \<Rightarrow> size_t \<Rightarrow> bool" where
  "spec_memalign_condition sz realSize =
     (sz \<le> realSize \<and> (sz < 16 \<longrightarrow> unat realSize \<le> 2 * unat sz))"

subsection \<open>Observers of a sequence of calls\<close>

text \<open>The number of lines of kind \<open>f\<close> in a sample file.\<close>

definition freed_reports :: "sample_record list \<Rightarrow> nat" where
  "freed_reports recs = length (filter (\<lambda>r. rec_kind r = CHR ''f'') recs)"

text \<open>
  A matching free: a call of \<^verbatim>\<open>free\<close> that reaches the comparison in \<^verbatim>\<open>register_free\<close>
  (not nested) with a pointer that is not null and equals \<^verbatim>\<open>_lastMallocTrigger\<close>.
\<close>

fun matching_free :: "('h, 'ms, 'fs) SampleHeap \<Rightarrow> bool \<times> whereInPython \<times> call \<Rightarrow> bool" where
  "matching_free s (wasInMalloc, wh, Free q) =
     (\<not> wasInMalloc \<and> q \<noteq> 0 \<and> q = lastMallocTrigger s)"
| "matching_free s (wasInMalloc, wh, Malloc sz) = False"
| "matching_free s (wasInMalloc, wh, Memalign alignment sz) = False"

text \<open>The number of matching frees met while a sequence of calls runs.\<close>

fun matching_frees ::
  "('h, 'ms, 'fs) collaborators \<Rightarrow> (bool \<times> whereInPython \<times> call) list
     \<Rightarrow> ('h, 'ms, 'fs) SampleHeap \<Rightarrow> nat" where
  "matching_frees env [] s = 0"
| "matching_frees env (c # cs) s =
     (if matching_free s c then 1 else 0) +
     (case api_step env c s of Inl a \<Rightarrow> 0 | Inr s' \<Rightarrow> matching_frees env cs s')"

section \<open>Properties\<close>

subsection \<open>What each member function changes\<close>


lemma writeCount_frame:
  "superHeap (writeCount env sig cnt p fname lno bi s) = superHeap s"
  "mallocSampler (writeCount env sig cnt p fname lno bi s) = mallocSampler s"
  "freeSampler (writeCount env sig cnt p fname lno bi s) = freeSampler s"
  "mallocTriggered (writeCount env sig cnt p fname lno bi s) = mallocTriggered s"
  "freeTriggered (writeCount env sig cnt p fname lno bi s) = freeTriggered s"
  "cCount (writeCount env sig cnt p fname lno bi s) = cCount s"
  "lastMallocTrigger (writeCount env sig cnt p fname lno bi s) = lastMallocTrigger s"
  "raised (writeCount env sig cnt p fname lno bi s) = raised s"
  by (simp_all add: writeCount_def Let_def)

lemma writeCount_pythonCount:
  "pythonCount (writeCount env sig cnt p fname lno bi s) = (if pythonCount s = 0 then 1 else pythonCount s)"
  by (simp add: writeCount_def Let_def)

lemma writeCount_flag:
  "freedLastMallocTrigger (writeCount env sig cnt p fname lno bi s) = False"
  by (simp add: writeCount_def Let_def)

lemma writeCount_sampleFile:
  "sampleFile (writeCount env sig cnt p fname lno bi s) =
     sampleFile s @ [formatted env sig cnt p fname lno bi s]"
  by (simp add: formatted_def writeCount_def Let_def)

lemma formatted_fields:
  "rec_kind (formatted env sig cnt p fname lno bi s) =
     (if sig = MallocSignal then CHR ''M''
      else if freedLastMallocTrigger s then CHR ''f'' else CHR ''F'')"
  "rec_seq (formatted env sig cnt p fname lno bi s) = mallocTriggered s + freeTriggered s"
  "rec_count (formatted env sig cnt p fname lno bi s) = cnt"
  "rec_num (formatted env sig cnt p fname lno bi s) = (if pythonCount s = 0 then 1 else pythonCount s)"
  "rec_den (formatted env sig cnt p fname lno bi s) =
     (if pythonCount s = 0 then 1 else pythonCount s) + cCount s"
  "rec_ptr (formatted env sig cnt p fname lno bi s) =
     (if freedLastMallocTrigger s then lastMallocTrigger s else p)"
  by (simp_all add: formatted_def writeCount_def Let_def)

lemma raise_sig_frame:
  "superHeap (raise_sig env sig s) = superHeap s"
  "mallocSampler (raise_sig env sig s) = mallocSampler s"
  "freeSampler (raise_sig env sig s) = freeSampler s"
  "mallocTriggered (raise_sig env sig s) = mallocTriggered s"
  "freeTriggered (raise_sig env sig s) = freeTriggered s"
  "pythonCount (raise_sig env sig s) = pythonCount s"
  "cCount (raise_sig env sig s) = cCount s"
  "lastMallocTrigger (raise_sig env sig s) = lastMallocTrigger s"
  "freedLastMallocTrigger (raise_sig env sig s) = freedLastMallocTrigger s"
  "sampleFile (raise_sig env sig s) = sampleFile s"
  by (simp_all add: raise_sig_def)

lemma raise_sig_raised:
  "raised (raise_sig env sig s) = (if SCALENE_DISABLE_SIGNALS env then raised s else raised s @ [sig])"
  by (simp add: raise_sig_def)

lemma process_malloc_unresolved:
  "wh = None \<or> wh = Some None \<Longrightarrow> process_malloc env wh n p s = s"
  by (auto simp: process_malloc_def)

lemma process_free_unresolved:
  "wh = None \<or> wh = Some None \<Longrightarrow> process_free env wh n s = s"
  by (auto simp: process_free_def)

lemmas frame_simps = writeCount_frame writeCount_pythonCount writeCount_flag writeCount_sampleFile
  raise_sig_frame raise_sig_raised

lemma process_malloc_resolved:
  "superHeap (process_malloc env (Some (Some (fname, lno, bi))) n p s) = superHeap s"
  "mallocSampler (process_malloc env (Some (Some (fname, lno, bi))) n p s) = mallocSampler s"
  "freeSampler (process_malloc env (Some (Some (fname, lno, bi))) n p s) = freeSampler s"
  "mallocTriggered (process_malloc env (Some (Some (fname, lno, bi))) n p s) = mallocTriggered s + 1"
  "freeTriggered (process_malloc env (Some (Some (fname, lno, bi))) n p s) = freeTriggered s"
  "pythonCount (process_malloc env (Some (Some (fname, lno, bi))) n p s) = 0"
  "cCount (process_malloc env (Some (Some (fname, lno, bi))) n p s) = 0"
  "lastMallocTrigger (process_malloc env (Some (Some (fname, lno, bi))) n p s) = p"
  "freedLastMallocTrigger (process_malloc env (Some (Some (fname, lno, bi))) n p s) = False"
  "sampleFile (process_malloc env (Some (Some (fname, lno, bi))) n p s) =
     sampleFile s @ [formatted env MallocSignal n p fname lno bi s]"
  "raised (process_malloc env (Some (Some (fname, lno, bi))) n p s) =
     (if SCALENE_DISABLE_SIGNALS env then raised s else raised s @ [MallocSignal])"
  by (simp_all add: process_malloc_def Let_def frame_simps)

lemma process_free_resolved:
  "superHeap (process_free env (Some (Some (fname, lno, bi))) n s) = superHeap s"
  "mallocSampler (process_free env (Some (Some (fname, lno, bi))) n s) = mallocSampler s"
  "freeSampler (process_free env (Some (Some (fname, lno, bi))) n s) = freeSampler s"
  "mallocTriggered (process_free env (Some (Some (fname, lno, bi))) n s) = mallocTriggered s"
  "freeTriggered (process_free env (Some (Some (fname, lno, bi))) n s) = freeTriggered s + 1"
  "pythonCount (process_free env (Some (Some (fname, lno, bi))) n s) =
     (if pythonCount s = 0 then 1 else pythonCount s)"
  "cCount (process_free env (Some (Some (fname, lno, bi))) n s) = cCount s"
  "lastMallocTrigger (process_free env (Some (Some (fname, lno, bi))) n s) = lastMallocTrigger s"
  "freedLastMallocTrigger (process_free env (Some (Some (fname, lno, bi))) n s) = False"
  "sampleFile (process_free env (Some (Some (fname, lno, bi))) n s) =
     sampleFile s @ [formatted env FreeSignal n 0 fname lno bi s]"
  "raised (process_free env (Some (Some (fname, lno, bi))) n s) =
     (if SCALENE_DISABLE_SIGNALS env then raised s else raised s @ [MallocSignal])"
  by (simp_all add: process_free_def Let_def frame_simps)

lemma whereInPython_cases:
  obtains "wh = None \<or> wh = Some None" | fname lno bi where "wh = Some (Some (fname, lno, bi))"
  by (cases wh) (auto, metis option.exhaust prod_cases3)

text \<open>The equations that evaluate a run of the test collaborators.\<close>

lemmas exec_simps = malloc_def memalign_def free_def register_malloc_def register_free_def
  process_malloc_def process_free_def writeCount_def raise_sig_def fake_env_def in_python_def
  SampleHeap_init_def run_file_def Let_def

subsection \<open>Symbolication failure\<close>

lemma register_malloc_unresolved:
  assumes "wh = None \<or> wh = Some None" and "register_malloc env wh rs p b s = Inr s'"
  shows "sampleFile s' = sampleFile s \<and> raised s' = raised s \<and>
         mallocTriggered s' = mallocTriggered s \<and> freeTriggered s' = freeTriggered s \<and>
         lastMallocTrigger s' = lastMallocTrigger s"
  using assms(2)
  by (auto simp: register_malloc_def Let_def process_malloc_unresolved [OF assms(1)]
      split: if_splits prod.splits)

lemma register_free_unresolved:
  assumes "wh = None \<or> wh = Some None"
  shows "sampleFile (register_free env wh rs p s) = sampleFile s \<and>
         raised (register_free env wh rs p s) = raised s \<and>
         mallocTriggered (register_free env wh rs p s) = mallocTriggered s \<and>
         freeTriggered (register_free env wh rs p s) = freeTriggered s \<and>
         lastMallocTrigger (register_free env wh rs p s) = lastMallocTrigger s"
  by (auto simp: register_free_def Let_def process_free_unresolved [OF assms]
      split: if_splits prod.splits)

lemma api_step_unresolved:
  assumes "wh = None \<or> wh = Some None" and "api_step env (w, wh, c) s = Inr s'"
  shows "sampleFile s' = sampleFile s \<and> raised s' = raised s \<and>
         mallocTriggered s' = mallocTriggered s \<and> freeTriggered s' = freeTriggered s \<and>
         lastMallocTrigger s' = lastMallocTrigger s"
proof (cases c)
  case (Malloc sz)
  with assms(2) show ?thesis
    by (auto simp: malloc_def Let_def split: if_splits prod.splits sum.splits
        dest: register_malloc_unresolved [OF assms(1)])
next
  case (Free p)
  with assms(2) show ?thesis
    by (auto simp: free_def Let_def register_free_unresolved [OF assms(1)] split: if_splits)
next
  case (Memalign al sz)
  with assms(2) show ?thesis
    by (auto simp: memalign_def Let_def split: if_splits prod.splits sum.splits
        dest: register_malloc_unresolved [OF assms(1)])
qed

text \<open>
  Claim C6. When \<^verbatim>\<open>p_whereInPython\<close> is null or the resolver returns \<^verbatim>\<open>false\<close>,
  \<^verbatim>\<open>process_malloc\<close> and \<^verbatim>\<open>process_free\<close> return the state they were given: no line is
  appended, no signal is raised, and the trigger counters, the last-trigger pointer and the
  attribution counters are as before. Seen from the public interface, every call made under such
  a resolver leaves the sample file, the raised signals, both trigger counters and the
  last-trigger pointer unchanged (the byte counters still accumulate in
  \<^verbatim>\<open>register_malloc\<close>, before the trigger is handled).
\<close>

theorem C6_symbolication_failure_suppresses_sample:
  assumes "wh = None \<or> wh = Some None"
  shows "process_malloc env wh n p s = s \<and> process_free env wh n s = s \<and>
         (\<forall>w c s'. api_step env (w, wh, c) s = Inr s' \<longrightarrow>
            sampleFile s' = sampleFile s \<and> raised s' = raised s \<and>
            mallocTriggered s' = mallocTriggered s \<and> freeTriggered s' = freeTriggered s \<and>
            lastMallocTrigger s' = lastMallocTrigger s)"
  using assms process_malloc_unresolved [OF assms] process_free_unresolved [OF assms]
    api_step_unresolved [OF assms]
  by blast

theorem C6_witness:
  "process_malloc (fake_env 1024) (Some None) 1024 4096 (SampleHeap_init [] [1024] [1024])
     = SampleHeap_init [] [1024] [1024] \<and>
   process_free (fake_env 1024) None 1024 (SampleHeap_init [] [1024] [1024])
     = SampleHeap_init [] [1024] [1024] \<and>
   sampleFile (free (fake_env 1024) False (Some None) 4096 (SampleHeap_init [] [1024] [1024])) = [] \<and>
   raised (free (fake_env 1024) False (Some None) 4096 (SampleHeap_init [] [1024] [1024])) = [] \<and>
   freeTriggered (free (fake_env 1024) False (Some None) 4096 (SampleHeap_init [] [1024] [1024])) = 0"
proof -
  let ?s = "SampleHeap_init [] [1024] [1024] :: (ptr list, size_t list, size_t list) SampleHeap"
  let ?env = "fake_env 1024"
  have a: "(Some None :: whereInPython) = None \<or> (Some None :: whereInPython) = Some None"
    by simp
  have b: "(None :: whereInPython) = None \<or> (None :: whereInPython) = Some None"
    by simp
  have c: "api_step ?env (False, Some None, Free 4096) ?s = Inr (free ?env False (Some None) 4096 ?s)"
    by simp
  note A = C6_symbolication_failure_suppresses_sample [OF a, of ?env 1024 4096 ?s]
  note B = C6_symbolication_failure_suppresses_sample [OF b, of ?env 1024 4096 ?s]
  from A have 1: "process_malloc ?env (Some None) 1024 4096 ?s = ?s"
    by (rule conjunct1)
  from B have 2: "process_free ?env None 1024 ?s = ?s"
    by blast
  from A c have 3: "sampleFile (free ?env False (Some None) 4096 ?s) = sampleFile ?s
      \<and> raised (free ?env False (Some None) 4096 ?s) = raised ?s
      \<and> freeTriggered (free ?env False (Some None) 4096 ?s) = freeTriggered ?s"
    by blast
  have 4: "sampleFile ?s = [] \<and> raised ?s = [] \<and> freeTriggered ?s = 0"
    by (simp add: SampleHeap_init_def)
  from 1 2 3 4 show ?thesis
    by simp
qed

subsection \<open>Allocation failure\<close>

text \<open>
  Claim C9. When the underlying \<^verbatim>\<open>malloc\<close> (or \<^verbatim>\<open>memalign\<close>) returns the null pointer,
  the wrapper returns the null pointer and the state it leaves differs from the one it was given
  in the state of the underlying allocator only: both samplers, both byte counters, both trigger
  counters, the last-trigger pointer and flag, the sample file and the raised signals are
  untouched, and no assertion is evaluated.
\<close>

theorem C9_allocation_failure_no_sampling:
  "(fst (SuperHeap_malloc env (superHeap s) sz) = 0 \<longrightarrow>
      malloc env w wh sz s =
        Inr (0, s\<lparr>superHeap := snd (SuperHeap_malloc env (superHeap s) sz)\<rparr>)) \<and>
   (fst (SuperHeap_memalign env (superHeap s) alignment sz) = 0 \<longrightarrow>
      memalign env w wh alignment sz s =
        Inr (0, s\<lparr>superHeap := snd (SuperHeap_memalign env (superHeap s) alignment sz)\<rparr>))"
  by (simp add: malloc_def memalign_def Let_def split: prod.splits)

theorem C9_witness:
  "fst (SuperHeap_malloc (fake_env 1024) [] 1000) = 0 \<and>
   fst (SuperHeap_memalign (fake_env 1024) [] 16 1000) = 0 \<and>
   malloc (fake_env 1024) False in_python 1000 (SampleHeap_init [] [1024] [1024])
     = Inr (0, SampleHeap_init [] [1024] [1024]) \<and>
   memalign (fake_env 1024) False in_python 16 1000 (SampleHeap_init [] [1024] [1024])
     = Inr (0, SampleHeap_init [] [1024] [1024])"
proof -
  let ?s = "SampleHeap_init [] [1024] [1024] :: (ptr list, size_t list, size_t list) SampleHeap"
  have a: "fst (SuperHeap_malloc (fake_env 1024) (superHeap ?s) 1000) = 0"
    and b: "fst (SuperHeap_memalign (fake_env 1024) (superHeap ?s) 16 1000) = 0"
    by (simp_all add: fake_env_def SampleHeap_init_def)
  from a b C9_allocation_failure_no_sampling [of "fake_env 1024" ?s 1000 False in_python 16]
  show ?thesis
    by (simp add: fake_env_def SampleHeap_init_def)
qed

subsection \<open>Records and signals of one call\<close>

lemma register_malloc_emits:
  assumes "register_malloc env wh rs p b s = Inr s'"
  shows "(sampleFile s' = sampleFile s \<and> raised s' = raised s) \<or>
         (\<exists>r. sampleFile s' = sampleFile s @ [r] \<and>
              raised s' = (if SCALENE_DISABLE_SIGNALS env then raised s
                           else raised s @ [MallocSignal]))"
proof (cases wh rule: whereInPython_cases)
  case 1
  from register_malloc_unresolved [OF 1 assms] show ?thesis by simp
next
  case (2 fname lno bi)
  with assms show ?thesis
    by (auto simp: register_malloc_def Let_def process_malloc_resolved
        split: if_splits prod.splits)
qed

lemma register_free_emits:
  "(sampleFile (register_free env wh rs p s) = sampleFile s \<and>
    raised (register_free env wh rs p s) = raised s) \<or>
   (\<exists>r. sampleFile (register_free env wh rs p s) = sampleFile s @ [r] \<and>
        raised (register_free env wh rs p s) =
          (if SCALENE_DISABLE_SIGNALS env then raised s else raised s @ [MallocSignal]))"
proof (cases wh rule: whereInPython_cases)
  case 1
  show ?thesis by (simp add: register_free_unresolved [OF 1])
next
  case (2 fname lno bi)
  then show ?thesis
    by (auto simp: register_free_def Let_def process_free_resolved
        split: if_splits prod.splits)
qed

lemma api_step_emits:
  assumes "api_step env (w, wh, c) s = Inr s'"
  shows "(sampleFile s' = sampleFile s \<and> raised s' = raised s) \<or>
         (\<exists>r. sampleFile s' = sampleFile s @ [r] \<and>
              raised s' = (if SCALENE_DISABLE_SIGNALS env then raised s
                           else raised s @ [MallocSignal]))"
proof (cases c)
  case (Malloc sz)
  with assms show ?thesis
    by (auto simp: malloc_def Let_def split: if_splits prod.splits sum.splits
        dest!: register_malloc_emits)
next
  case (Free p)
  with assms show ?thesis
    using register_free_emits [of env wh "SuperHeap_getSize env (superHeap s) p" p s]
    by (auto simp: free_def Let_def split: if_splits)
next
  case (Memalign al sz)
  with assms show ?thesis
    by (auto simp: memalign_def Let_def split: if_splits prod.splits sum.splits
        dest!: register_malloc_emits)
qed

text \<open>
  Claim C8. In a build that raises signals (\<^verbatim>\<open>SCALENE_DISABLE_SIGNALS\<close> not set), a malloc
  trigger and a free trigger whose location resolves each append exactly one line and raise
  exactly one signal, and that signal is \<^verbatim>\<open>MallocSignal\<close> for both; seen from the public
  interface, every call that appends a line raises \<^verbatim>\<open>MallocSignal\<close> once and nothing else.
\<close>

theorem C8_both_triggers_raise_MallocSignal:
  assumes "\<not> SCALENE_DISABLE_SIGNALS env"
  shows "raised (process_malloc env (Some (Some (fname, lno, bi))) n p s)
           = raised s @ [MallocSignal] \<and>
         length (sampleFile (process_malloc env (Some (Some (fname, lno, bi))) n p s))
           = Suc (length (sampleFile s)) \<and>
         raised (process_free env (Some (Some (fname, lno, bi))) n s)
           = raised s @ [MallocSignal] \<and>
         length (sampleFile (process_free env (Some (Some (fname, lno, bi))) n s))
           = Suc (length (sampleFile s)) \<and>
         (\<forall>w wh c s'. api_step env (w, wh, c) s = Inr s' \<longrightarrow> sampleFile s' \<noteq> sampleFile s
            \<longrightarrow> raised s' = raised s @ [MallocSignal])"
  using assms api_step_emits [of env _ _ _ s]
  by (auto simp: process_malloc_resolved process_free_resolved)

theorem C8_witness:
  "\<not> SCALENE_DISABLE_SIGNALS (fake_env 1024) \<and>
   raised (process_malloc (fake_env 1024) (Some (Some (''a.py'', 3, 0))) 1024 4096
      (SampleHeap_init [] [] [])) = [MallocSignal] \<and>
   raised (process_free (fake_env 1024) (Some (Some (''a.py'', 3, 0))) 1024
      (SampleHeap_init [] [] [])) = [MallocSignal]"
proof -
  let ?s = "SampleHeap_init [] [] [] :: (ptr list, size_t list, size_t list) SampleHeap"
  have a: "\<not> SCALENE_DISABLE_SIGNALS (fake_env 1024)"
    by (simp add: fake_env_def)
  have b: "raised ?s = []"
    by (simp add: SampleHeap_init_def)
  from C8_both_triggers_raise_MallocSignal [OF a, of "''a.py''" 3 0 1024 4096 ?s] a b
  show ?thesis
    by simp
qed

subsection \<open>The attribution fraction\<close>

lemma share_in_unit_interval:
  fixes a b :: nat
  assumes "0 < a"
  shows "(0::rat) < of_nat a / (of_nat a + of_nat b) \<and> (of_nat a :: rat) / (of_nat a + of_nat b) \<le> 1"
proof -
  from assms have "(0::rat) < of_nat a + of_nat b"
    by (simp add: add_pos_nonneg)
  with assms show ?thesis
    by (simp add: divide_le_eq)
qed

text \<open>
  Claim C7. The line written by \<^verbatim>\<open>writeCount\<close> carries the quotient of \<open>m\<close> by
  \<open>m + _cCount\<close>, where \<open>m\<close> is \<^verbatim>\<open>_pythonCount\<close>, or 1 when \<^verbatim>\<open>_pythonCount\<close> is exactly
  zero, and the sum is the code's 64-bit sum. With 300 managed and 100 native bytes the
  quotient is 3/4; with 0 managed and 50 native bytes it is 1/51. Whenever the sum does not
  wrap around, the denominator is not zero and the quotient lies in (0, 1]. (The line prints
  the quotient rounded to single precision; the rounding is not modelled.)
\<close>

theorem C7_attribution_fraction:
  "sampleFile (writeCount env sig cnt p fname lno bi s)
     = sampleFile s @ [formatted env sig cnt p fname lno bi s] \<and>
   rec_num (formatted env sig cnt p fname lno bi s)
     = (if pythonCount s = 0 then 1 else pythonCount s) \<and>
   rec_den (formatted env sig cnt p fname lno bi s)
     = (if pythonCount s = 0 then 1 else pythonCount s) + cCount s \<and>
   (pythonCount s = 300 \<and> cCount s = 100 \<longrightarrow>
      rec_fraction (formatted env sig cnt p fname lno bi s) = 3 / 4) \<and>
   (pythonCount s = 0 \<and> cCount s = 50 \<longrightarrow>
      rec_fraction (formatted env sig cnt p fname lno bi s) = 1 / 51) \<and>
   (unat (if pythonCount s = 0 then 1 else pythonCount s) + unat (cCount s) < 2 ^ 64 \<longrightarrow>
      rec_fraction (formatted env sig cnt p fname lno bi s)
        = of_nat (unat (if pythonCount s = 0 then 1 else pythonCount s))
          / (of_nat (unat (if pythonCount s = 0 then 1 else pythonCount s))
             + of_nat (unat (cCount s))) \<and>
      0 < rec_fraction (formatted env sig cnt p fname lno bi s) \<and>
      rec_fraction (formatted env sig cnt p fname lno bi s) \<le> 1)"
proof -
  define r where "r = formatted env sig cnt p fname lno bi s"
  define m where "m = (if pythonCount s = 0 then 1 else pythonCount s)"
  have num: "rec_num r = m" and den: "rec_den r = m + cCount s"
    by (simp_all add: r_def m_def formatted_fields)
  have a: "pythonCount s = 300 \<and> cCount s = 100 \<longrightarrow> rec_fraction r = 3 / 4"
    by (simp add: rec_fraction_def num den m_def)
  have b: "pythonCount s = 0 \<and> cCount s = 50 \<longrightarrow> rec_fraction r = 1 / 51"
    by (simp add: rec_fraction_def num den m_def)
  have c: "rec_fraction r = of_nat (unat m) / (of_nat (unat m) + of_nat (unat (cCount s)))
      \<and> 0 < rec_fraction r \<and> rec_fraction r \<le> 1"
    if nowrap: "unat m + unat (cCount s) < 2 ^ 64"
  proof -
    from nowrap have sum: "unat (m + cCount s) = unat m + unat (cCount s)"
      using unat_add_lem [of m "cCount s"] by simp
    have "m \<noteq> 0"
      by (simp add: m_def)
    then have pos: "0 < unat m"
      by (simp add: unat_gt_0)
    have eq: "rec_fraction r = of_nat (unat m) / (of_nat (unat m) + of_nat (unat (cCount s)))"
      unfolding rec_fraction_def num den sum by simp
    from share_in_unit_interval [OF pos, of "unat (cCount s)"] show ?thesis
      unfolding eq by blast
  qed
  have wr: "sampleFile (writeCount env sig cnt p fname lno bi s) = sampleFile s @ [r]"
    by (simp only: r_def writeCount_sampleFile)
  from wr num den a b c show ?thesis
    unfolding r_def m_def by blast
qed

theorem C7_witness:
  "rec_fraction (formatted (fake_env 1024) MallocSignal 1024 4096 ''a.py'' 3 0
      ((SampleHeap_init [] [] [])\<lparr>pythonCount := 300, cCount := 100\<rparr>)) = 3 / 4 \<and>
   rec_fraction (formatted (fake_env 1024) FreeSignal 1024 0 ''a.py'' 3 0
      ((SampleHeap_init [] [] [])\<lparr>pythonCount := 0, cCount := 50\<rparr>)) = 1 / 51 \<and>
   0 < rec_fraction (formatted (fake_env 1024) FreeSignal 1024 0 ''a.py'' 3 0
      ((SampleHeap_init [] [] [])\<lparr>pythonCount := 0, cCount := 50\<rparr>))"
proof -
  let ?s1 = "(SampleHeap_init [] [] [])\<lparr>pythonCount := 300, cCount := 100\<rparr>
               :: (ptr list, size_t list, size_t list) SampleHeap"
  let ?s2 = "(SampleHeap_init [] [] [])\<lparr>pythonCount := 0, cCount := 50\<rparr>
               :: (ptr list, size_t list, size_t list) SampleHeap"
  have a: "pythonCount ?s1 = 300 \<and> cCount ?s1 = 100"
    by simp
  have b: "pythonCount ?s2 = 0 \<and> cCount ?s2 = 50"
    by simp
  have c: "unat (if pythonCount ?s2 = 0 then 1 else pythonCount ?s2) + unat (cCount ?s2) < 2 ^ 64"
    by simp
  note A = C7_attribution_fraction [of "fake_env 1024" MallocSignal 1024 4096 "''a.py''" 3 0 ?s1]
  note B = C7_attribution_fraction [of "fake_env 1024" FreeSignal 1024 0 "''a.py''" 3 0 ?s2]
  from A a have 1: "rec_fraction (formatted (fake_env 1024) MallocSignal 1024 4096 ''a.py'' 3 0 ?s1) = 3 / 4"
    by blast
  from B b have 2: "rec_fraction (formatted (fake_env 1024) FreeSignal 1024 0 ''a.py'' 3 0 ?s2) = 1 / 51"
    by blast
  from B c have 3: "0 < rec_fraction (formatted (fake_env 1024) FreeSignal 1024 0 ''a.py'' 3 0 ?s2)"
    by blast
  from 1 2 3 show ?thesis
    by blast
qed

subsection \<open>The attribution counters\<close>

lemma register_free_counters:
  "cCount (register_free env wh rs q s) = cCount s \<and>
   (pythonCount (register_free env wh rs q s) = pythonCount s \<or>
    pythonCount s = 0 \<and> pythonCount (register_free env wh rs q s) = 1)"
proof (cases wh rule: whereInPython_cases)
  case 1
  show ?thesis
    by (simp add: register_free_def Let_def process_free_unresolved [OF 1] split: prod.splits)
next
  case (2 fname lno bi)
  then show ?thesis
    by (simp add: register_free_def Let_def process_free_resolved split: prod.splits)
qed

text \<open>
  Claim C5, as the code has it. A malloc trigger whose location resolves leaves both attribution
  counters at zero; one whose location does not resolve leaves them as they were. A free trigger
  never changes the native counter, and it leaves the managed counter as it was unless that
  counter is exactly zero when the line is written: the division guard of \<^verbatim>\<open>writeCount\<close>
  then stores 1 in it, and \<^verbatim>\<open>process_free\<close> does not restore it. The same holds for a whole
  call of \<^verbatim>\<open>free\<close>.
\<close>

theorem C5_attribution_counters:
  "pythonCount (process_malloc env (Some (Some (fname, lno, bi))) n p s) = 0 \<and>
   cCount (process_malloc env (Some (Some (fname, lno, bi))) n p s) = 0 \<and>
   (wh = None \<or> wh = Some None \<longrightarrow>
      pythonCount (process_malloc env wh n p s) = pythonCount s \<and>
      cCount (process_malloc env wh n p s) = cCount s \<and>
      pythonCount (process_free env wh n s) = pythonCount s) \<and>
   cCount (process_free env wh n s) = cCount s \<and>
   pythonCount (process_free env (Some (Some (fname, lno, bi))) n s)
     = (if pythonCount s = 0 then 1 else pythonCount s) \<and>
   cCount (free env w wh q s) = cCount s \<and>
   (pythonCount s \<noteq> 0 \<longrightarrow> pythonCount (free env w wh q s) = pythonCount s)"
proof -
  have a: "cCount (process_free env wh n s) = cCount s"
    by (cases wh rule: whereInPython_cases)
      (simp_all add: process_free_unresolved process_free_resolved)
  have b: "cCount (free env w wh q s) = cCount s"
    using register_free_counters [of env wh _ q s] by (simp add: free_def Let_def)
  have c: "pythonCount (free env w wh q s) = pythonCount s" if "pythonCount s \<noteq> 0"
    using that register_free_counters [of env wh _ q s] by (auto simp: free_def Let_def)
  from a b c show ?thesis
    by (simp add: process_malloc_resolved process_free_resolved
        process_malloc_unresolved process_free_unresolved)
qed

theorem C5_witness:
  "pythonCount (process_free (fake_env 1024) None 1024
      ((SampleHeap_init [] [] [])\<lparr>pythonCount := 300, cCount := 100\<rparr>)) = 300 \<and>
   pythonCount (free (fake_env 1024) False in_python 4096
      ((SampleHeap_init [] [] [1024])\<lparr>pythonCount := 300, cCount := 100\<rparr>)) = 300 \<and>
   cCount (free (fake_env 1024) False in_python 4096
      ((SampleHeap_init [] [] [1024])\<lparr>pythonCount := 300, cCount := 100\<rparr>)) = 100"
proof -
  let ?s = "(SampleHeap_init [] [] [])\<lparr>pythonCount := 300, cCount := 100\<rparr>
              :: (ptr list, size_t list, size_t list) SampleHeap"
  let ?t = "(SampleHeap_init [] [] [1024])\<lparr>pythonCount := 300, cCount := 100\<rparr>
              :: (ptr list, size_t list, size_t list) SampleHeap"
  have h1: "(None :: whereInPython) = None \<or> (None :: whereInPython) = Some None"
    by simp
  have h2: "pythonCount ?t \<noteq> 0"
    by simp
  from C5_attribution_counters [of "fake_env 1024" _ _ _ 1024 _ ?s None] h1
  have 1: "pythonCount (process_free (fake_env 1024) None 1024 ?s) = pythonCount ?s"
    by blast
  from C5_attribution_counters [of "fake_env 1024" _ _ _ _ _ ?t in_python False 4096] h2
  have 2: "pythonCount (free (fake_env 1024) False in_python 4096 ?t) = pythonCount ?t
         \<and> cCount (free (fake_env 1024) False in_python 4096 ?t) = cCount ?t"
    by blast
  from 1 2 show ?thesis
    by simp
qed

text \<open>
  The claim as written fails in a fresh process: after one \<^verbatim>\<open>malloc\<close> that does not trigger,
  the managed counter is 0; the free trigger that follows leaves it at 1.
\<close>

theorem C5_counterexample:
  "map_sum id pythonCount
     (run (fake_env 1024) [(False, in_python, Malloc 1000)]
        (SampleHeap_init [4096] [] [1024])) = Inr 0 \<and>
   map_sum id pythonCount
     (run (fake_env 1024) [(False, in_python, Malloc 1000), (False, in_python, Free 4096)]
        (SampleHeap_init [4096] [] [1024])) = Inr 1"
  by (simp add: exec_simps)

subsection \<open>Sequence numbers\<close>

lemma register_malloc_seq:
  assumes "register_malloc env wh rs p b s = Inr s'"
  shows "(sampleFile s' = sampleFile s \<and> mallocTriggered s' = mallocTriggered s \<and>
          freeTriggered s' = freeTriggered s) \<or>
         (\<exists>r. sampleFile s' = sampleFile s @ [r] \<and>
              rec_seq r = mallocTriggered s + freeTriggered s \<and>
              mallocTriggered s' = mallocTriggered s + 1 \<and> freeTriggered s' = freeTriggered s)"
proof (cases wh rule: whereInPython_cases)
  case 1
  with assms show ?thesis
    by (auto simp: register_malloc_def Let_def process_malloc_unresolved [OF 1]
        split: if_splits prod.splits)
next
  case (2 fname lno bi)
  with assms show ?thesis
    by (auto simp: register_malloc_def Let_def process_malloc_resolved formatted_fields
        split: if_splits prod.splits)
qed

lemma register_free_seq:
  "(sampleFile (register_free env wh rs q s) = sampleFile s \<and>
    mallocTriggered (register_free env wh rs q s) = mallocTriggered s \<and>
    freeTriggered (register_free env wh rs q s) = freeTriggered s) \<or>
   (\<exists>r. sampleFile (register_free env wh rs q s) = sampleFile s @ [r] \<and>
        rec_seq r = mallocTriggered s + freeTriggered s \<and>
        mallocTriggered (register_free env wh rs q s) = mallocTriggered s \<and>
        freeTriggered (register_free env wh rs q s) = freeTriggered s + 1)"
proof (cases wh rule: whereInPython_cases)
  case 1
  show ?thesis
    by (auto simp: register_free_def Let_def process_free_unresolved [OF 1]
        split: if_splits prod.splits)
next
  case (2 fname lno bi)
  then show ?thesis
    by (auto simp: register_free_def Let_def process_free_resolved formatted_fields
        split: if_splits prod.splits)
qed

lemma api_step_seq:
  assumes "api_step env c s = Inr s'"
  shows "(sampleFile s' = sampleFile s \<and> mallocTriggered s' = mallocTriggered s \<and>
          freeTriggered s' = freeTriggered s) \<or>
         (\<exists>r. sampleFile s' = sampleFile s @ [r] \<and>
              rec_seq r = mallocTriggered s + freeTriggered s \<and>
              mallocTriggered s' + freeTriggered s' = mallocTriggered s + freeTriggered s + 1)"
proof -
  obtain w wh cl where c: "c = (w, wh, cl)"
    by (cases c)
  show ?thesis
  proof (cases cl)
    case (Malloc sz)
    with assms c show ?thesis
      by (auto simp: malloc_def Let_def split: if_splits prod.splits sum.splits
          dest!: register_malloc_seq)
  next
    case (Free q)
    with assms c show ?thesis
      using register_free_seq [of env wh "SuperHeap_getSize env (superHeap s) q" q s]
      by (auto simp: free_def Let_def split: if_splits)
  next
    case (Memalign al sz)
    with assms c show ?thesis
      by (auto simp: memalign_def Let_def split: if_splits prod.splits sum.splits
          dest!: register_malloc_seq)
  qed
qed

lemma run_seq:
  assumes "run env cs s = Inr s'"
    and "mallocTriggered s + freeTriggered s = of_nat (length (sampleFile s))"
    and "map rec_seq (sampleFile s) = map of_nat [0..<length (sampleFile s)]"
  shows "mallocTriggered s' + freeTriggered s' = of_nat (length (sampleFile s')) \<and>
         map rec_seq (sampleFile s') = map of_nat [0..<length (sampleFile s')]"
  using assms
proof (induction cs arbitrary: s)
  case Nil
  then show ?case by simp
next
  case (Cons c cs)
  from Cons.prems(1) obtain t where t: "api_step env c s = Inr t" and r: "run env cs t = Inr s'"
    by (auto split: sum.splits)
  from api_step_seq [OF t] Cons.prems(2,3)
  have "mallocTriggered t + freeTriggered t = of_nat (length (sampleFile t)) \<and>
        map rec_seq (sampleFile t) = map of_nat [0..<length (sampleFile t)]"
    by auto
  with Cons.IH [OF r] show ?case
    by blast
qed

text \<open>
  Claim C3, as the code has it. The sequence number of a line is the 64-bit sum of the two
  trigger counters as \<^verbatim>\<open>writeCount\<close> finds them, and every trigger, malloc or free,
  increments its counter only after its line is written: the line that \<^verbatim>\<open>process_malloc\<close> or
  \<^verbatim>\<open>process_free\<close> appends carries the sum of the counters the handler was entered with, and
  the handler leaves that sum one higher. The same holds for every call of the public
  interface that appends a line. Hence, in a run that starts from a fresh heap, the lines are
  numbered 0, 1, 2, ... in the order written, and the sum of the counters is the number of lines
  written. In particular the first malloc trigger of a fresh heap (a successful, non-nested
  \<^verbatim>\<open>malloc\<close> on which the sampler triggers and the location resolves) writes one line, with
  sequence number 0, and leaves the sum of the counters at 1.
\<close>

theorem C3_sequence_number:
  "sampleFile (writeCount env sig cnt p fname lno bi s)
     = sampleFile s @ [formatted env sig cnt p fname lno bi s] \<and>
   rec_seq (formatted env sig cnt p fname lno bi s) = mallocTriggered s + freeTriggered s \<and>
   sampleFile (process_malloc env (Some (Some (fname, lno, bi))) n p s)
     = sampleFile s @ [formatted env MallocSignal n p fname lno bi s] \<and>
   mallocTriggered (process_malloc env (Some (Some (fname, lno, bi))) n p s)
     = mallocTriggered s + 1 \<and>
   freeTriggered (process_malloc env (Some (Some (fname, lno, bi))) n p s) = freeTriggered s \<and>
   sampleFile (process_free env (Some (Some (fname, lno, bi))) n s)
     = sampleFile s @ [formatted env FreeSignal n 0 fname lno bi s] \<and>
   mallocTriggered (process_free env (Some (Some (fname, lno, bi))) n s) = mallocTriggered s \<and>
   freeTriggered (process_free env (Some (Some (fname, lno, bi))) n s)
     = freeTriggered s + 1 \<and>
   (api_step env c s = Inr s' \<longrightarrow>
      sampleFile s' = sampleFile s \<and> mallocTriggered s' = mallocTriggered s \<and>
      freeTriggered s' = freeTriggered s \<or>
      (\<exists>r. sampleFile s' = sampleFile s @ [r] \<and>
           rec_seq r = mallocTriggered s + freeTriggered s \<and>
           mallocTriggered s' + freeTriggered s' = mallocTriggered s + freeTriggered s + 1)) \<and>
   (run env cs (SampleHeap_init h ms fs) = Inr s'' \<longrightarrow>
      map rec_seq (sampleFile s'') = map of_nat [0..<length (sampleFile s'')] \<and>
      mallocTriggered s'' + freeTriggered s'' = of_nat (length (sampleFile s''))) \<and>
   (SuperHeap_malloc env h sz = (p, h') \<and> p \<noteq> 0 \<and> SuperHeap_getSize env h' p \<noteq> 0 \<and>
    mallocSampler_sample env ms (SuperHeap_getSize env h' p) = (k, ms') \<and> k \<noteq> 0 \<longrightarrow>
      (\<exists>t. malloc env False (Some (Some (fname, lno, bi))) sz (SampleHeap_init h ms fs)
               = Inr (p, t) \<and>
            map rec_kind (sampleFile t) = [CHR ''M''] \<and>
            map rec_seq (sampleFile t) = [0] \<and>
            mallocTriggered t + freeTriggered t = 1))"
proof -
  have first: "\<exists>t. malloc env False (Some (Some (fname, lno, bi))) sz (SampleHeap_init h ms fs)
               = Inr (p, t) \<and>
            map rec_kind (sampleFile t) = [CHR ''M''] \<and>
            map rec_seq (sampleFile t) = [0] \<and>
            mallocTriggered t + freeTriggered t = 1"
    if "SuperHeap_malloc env h sz = (p, h') \<and> p \<noteq> 0 \<and> SuperHeap_getSize env h' p \<noteq> 0 \<and>
      mallocSampler_sample env ms (SuperHeap_getSize env h' p) = (k, ms') \<and> k \<noteq> 0"
    using that
    by (simp add: malloc_def register_malloc_def Let_def SampleHeap_init_def word_greater_zero_iff
        process_malloc_resolved formatted_fields)
  have step: "sampleFile s' = sampleFile s \<and> mallocTriggered s' = mallocTriggered s \<and>
      freeTriggered s' = freeTriggered s \<or>
      (\<exists>r. sampleFile s' = sampleFile s @ [r] \<and>
           rec_seq r = mallocTriggered s + freeTriggered s \<and>
           mallocTriggered s' + freeTriggered s' = mallocTriggered s + freeTriggered s + 1)"
    if "api_step env c s = Inr s'"
    using api_step_seq [OF that] .
  have fresh: "map rec_seq (sampleFile s'') = map of_nat [0..<length (sampleFile s'')] \<and>
      mallocTriggered s'' + freeTriggered s'' = of_nat (length (sampleFile s''))"
    if "run env cs (SampleHeap_init h ms fs) = Inr s''"
    using run_seq [OF that] by (simp add: SampleHeap_init_def)
  have handlers:
    "sampleFile (writeCount env sig cnt p fname lno bi s)
       = sampleFile s @ [formatted env sig cnt p fname lno bi s]"
    "rec_seq (formatted env sig cnt p fname lno bi s) = mallocTriggered s + freeTriggered s"
    "sampleFile (process_malloc env (Some (Some (fname, lno, bi))) n p s)
       = sampleFile s @ [formatted env MallocSignal n p fname lno bi s]"
    "mallocTriggered (process_malloc env (Some (Some (fname, lno, bi))) n p s)
       = mallocTriggered s + 1"
    "freeTriggered (process_malloc env (Some (Some (fname, lno, bi))) n p s) = freeTriggered s"
    "sampleFile (process_free env (Some (Some (fname, lno, bi))) n s)
       = sampleFile s @ [formatted env FreeSignal n 0 fname lno bi s]"
    "mallocTriggered (process_free env (Some (Some (fname, lno, bi))) n s) = mallocTriggered s"
    "freeTriggered (process_free env (Some (Some (fname, lno, bi))) n s) = freeTriggered s + 1"
    by (simp_all only: writeCount_sampleFile formatted_fields process_malloc_resolved
        process_free_resolved)
  note impI [OF step] impI [OF fresh] impI [OF first]
  with handlers show ?thesis
    by (intro conjI) assumption+
qed

theorem C3_witness:
  "map_option (map rec_seq)
     (run_file (fake_env 1024) [(False, in_python, Malloc 1000)]
        (SampleHeap_init [4096] [1024] [])) = Some [0] \<and>
   (\<exists>s''. run (fake_env 1024)
            [(False, in_python, Malloc 1000), (False, in_python, Free 4096),
             (False, in_python, Malloc 1000), (False, in_python, Free 4096)]
            (SampleHeap_init [4096, 4096] [1024, 0] [1024, 1024]) = Inr s'' \<and>
          map rec_seq (sampleFile s'') = [0, 1, 2] \<and>
          mallocTriggered s'' + freeTriggered s'' = 3)"
proof -
  let ?cs = "[(False, in_python, Malloc 1000), (False, in_python, Free 4096),
              (False, in_python, Malloc 1000), (False, in_python, Free 4096)]"
  let ?s = "SampleHeap_init [4096, 4096] [1024, 0] [1024, 1024]
              :: (ptr list, size_t list, size_t list) SampleHeap"
  have h: "SuperHeap_malloc (fake_env 1024) [4096] 1000 = (4096, []) \<and> (4096 :: ptr) \<noteq> 0 \<and>
      SuperHeap_getSize (fake_env 1024) [] 4096 \<noteq> 0 \<and>
      mallocSampler_sample (fake_env 1024) [1024] (SuperHeap_getSize (fake_env 1024) [] 4096)
        = (1024, []) \<and> (1024 :: size_t) \<noteq> 0"
    by (simp add: fake_env_def)
  note T = C3_sequence_number [where env = "fake_env 1024" and sig = MallocSignal
      and cnt = 1024 and p = 4096 and fname = "''a.py''" and lno = 3 and bi = 0
      and s = "SampleHeap_init [4096] [1024] []" and n = 1024
      and c = "(False, in_python, Malloc 1000)" and s' = "SampleHeap_init [4096] [1024] []"
      and cs = "[]" and h = "[4096]" and ms = "[1024]" and fs = "[]"
      and s'' = "SampleHeap_init [4096] [1024] []"
      and sz = 1000 and h' = "[]" and k = 1024 and ms' = "[]"]
  note T [THEN conjunct2, THEN conjunct2, THEN conjunct2, THEN conjunct2, THEN conjunct2,
      THEN conjunct2, THEN conjunct2, THEN conjunct2, THEN conjunct2, THEN conjunct2,
      THEN mp, OF h]
  then obtain t where "malloc (fake_env 1024) False (Some (Some (''a.py'', 3, 0))) 1000
        (SampleHeap_init [4096] [1024] []) = Inr (4096, t)"
    and "map rec_seq (sampleFile t) = [0]"
    by (elim exE conjE)
  then have 1: "map_option (map rec_seq)
     (run_file (fake_env 1024) [(False, in_python, Malloc 1000)]
        (SampleHeap_init [4096] [1024] [])) = Some [0]"
    by (simp add: run_file_def in_python_def)
  obtain s'' where r: "run (fake_env 1024) ?cs ?s = Inr s''" and len: "length (sampleFile s'') = 3"
    by (simp add: exec_simps)
  note U = C3_sequence_number [where env = "fake_env 1024" and sig = MallocSignal
      and cnt = 1024 and p = 4096 and fname = "''a.py''" and lno = 3 and bi = 0
      and s = ?s and n = 1024
      and c = "(False, in_python, Malloc 1000)" and s' = ?s
      and cs = ?cs and h = "[4096, 4096]" and ms = "[1024, 0]" and fs = "[1024, 1024]"
      and s'' = s''
      and sz = 1000 and h' = "[]" and k = 1024 and ms' = "[]"]
  note U [THEN conjunct2, THEN conjunct2, THEN conjunct2, THEN conjunct2, THEN conjunct2,
      THEN conjunct2, THEN conjunct2, THEN conjunct2, THEN conjunct2, THEN conjunct1,
      THEN mp, OF r]
  then have "map rec_seq (sampleFile s'') = [0, 1, 2] \<and>
      mallocTriggered s'' + freeTriggered s'' = 3"
    unfolding len by (simp add: upt_rec [of 0] eval_nat_numeral)
  with r have 2: "\<exists>s''. run (fake_env 1024) ?cs ?s = Inr s'' \<and>
      map rec_seq (sampleFile s'') = [0, 1, 2] \<and> mallocTriggered s'' + freeTriggered s'' = 3"
    by (intro exI [of _ s'']) simp
  from 1 2 show ?thesis
    by (rule conjI)
qed

text \<open>
  The claim as written fails: with a sampler that triggers on the first call, the first
  \<^verbatim>\<open>malloc\<close> of a fresh heap writes sequence number 0, not 1.
\<close>

theorem C3_counterexample:
  "map_option (map rec_seq)
     (run_file (fake_env 1024) [(False, in_python, Malloc 1000)]
        (SampleHeap_init [4096] [1024] [])) \<noteq> Some [1]"
  by (simp add: exec_simps)

subsection \<open>The assertions\<close>

lemma register_malloc_assert:
  "register_malloc env wh rs p b s = Inl a \<longleftrightarrow> rs = 0 \<and> a = Assert_realSize"
  by (auto simp: register_malloc_def Let_def split: prod.splits)

lemma register_malloc_returns:
  "rs \<noteq> 0 \<Longrightarrow> \<exists>s'. register_malloc env wh rs p b s = Inr s'"
  by (simp add: register_malloc_def Let_def split: prod.splits)

lemma twice_no_wrap:
  fixes sz rs :: size_t
  assumes "unat sz < 2 ^ 63"
  shows "rs \<le> 2 * sz \<longleftrightarrow> unat rs \<le> 2 * unat sz"
proof -
  from assms have "unat (2 :: size_t) * unat sz < 2 ^ LENGTH(64)"
    by simp
  then have "unat (2 * sz) = unat (2 :: size_t) * unat sz"
    by (simp only: unat_mult_lem)
  then show ?thesis
    by (simp add: word_le_nat_alt)
qed

text \<open>
  Claim C4, as the code has it. In a non-nested \<^verbatim>\<open>memalign\<close> whose allocation succeeded, the
  first assertion fails exactly when the delivered size is below the requested size, and the
  second exactly when the first holds, the request is of 16 bytes or more, and the delivered size
  exceeds twice the request (the product taken in \<^verbatim>\<open>size_t\<close>, which is the integer product
  for requests below \<open>2\<^sup>6\<^sup>3\<close>). So the two assertions hold exactly when delivered \<open>\<ge>\<close>
  requested and, for every request of \<^emph>\<open>at least\<close> 16 bytes, delivered \<open>\<le>\<close> 2\<open>\<times>\<close> requested;
  requests below 16 bytes are exempt. Under these two conditions the call returns the pointer,
  provided the delivered size is not zero (which \<^verbatim>\<open>register_malloc\<close> asserts). A nested call
  evaluates no assertion.
\<close>

theorem C4_memalign_assertions:
  assumes "SuperHeap_memalign env (superHeap s) alignment sz = (p, h)"
    and "p \<noteq> 0"
    and "rs = SuperHeap_getSize env h p"
  shows "(memalign env False wh alignment sz s = Inl Assert_realSize_ge_sz \<longleftrightarrow> \<not> sz \<le> rs) \<and>
         (memalign env False wh alignment sz s = Inl Assert_sz_lt_16_or_realSize_le_2sz
            \<longleftrightarrow> sz \<le> rs \<and> 16 \<le> sz \<and> \<not> rs \<le> 2 * sz) \<and>
         (memalign env False wh alignment sz s \<noteq> Inl Assert_realSize_ge_sz \<and>
          memalign env False wh alignment sz s \<noteq> Inl Assert_sz_lt_16_or_realSize_le_2sz
            \<longleftrightarrow> sz \<le> rs \<and> (16 \<le> sz \<longrightarrow> rs \<le> 2 * sz)) \<and>
         (sz \<le> rs \<and> (16 \<le> sz \<longrightarrow> rs \<le> 2 * sz) \<and> rs \<noteq> 0 \<longrightarrow>
            (\<exists>s'. memalign env False wh alignment sz s = Inr (p, s'))) \<and>
         (unat sz < 2 ^ 63 \<longrightarrow> (rs \<le> 2 * sz \<longleftrightarrow> unat rs \<le> 2 * unat sz)) \<and>
         memalign env True wh alignment sz s = Inr (p, s\<lparr>superHeap := h\<rparr>)"
proof -
  let ?m = "memalign env False wh alignment sz s"
  let ?reg = "register_malloc env wh rs p True (s\<lparr>superHeap := h\<rparr>)"
  have m: "?m = (if \<not> sz \<le> rs then Inl Assert_realSize_ge_sz
                 else if \<not> (sz < 16 \<or> rs \<le> 2 * sz) then Inl Assert_sz_lt_16_or_realSize_le_2sz
                 else (case ?reg of Inl a \<Rightarrow> Inl a | Inr s2 \<Rightarrow> Inr (p, s2)))"
    using assms by (simp add: memalign_def Let_def)
  have reg: "?reg \<noteq> Inl Assert_realSize_ge_sz" "?reg \<noteq> Inl Assert_sz_lt_16_or_realSize_le_2sz"
    by (simp_all add: register_malloc_assert)
  have 1: "?m = Inl Assert_realSize_ge_sz \<longleftrightarrow> \<not> sz \<le> rs"
    using reg by (auto simp: m split: sum.splits)
  have 2: "?m = Inl Assert_sz_lt_16_or_realSize_le_2sz \<longleftrightarrow> sz \<le> rs \<and> 16 \<le> sz \<and> \<not> rs \<le> 2 * sz"
    using reg by (auto simp: m not_less split: sum.splits)
  have 3: "?m \<noteq> Inl Assert_realSize_ge_sz \<and> ?m \<noteq> Inl Assert_sz_lt_16_or_realSize_le_2sz
            \<longleftrightarrow> sz \<le> rs \<and> (16 \<le> sz \<longrightarrow> rs \<le> 2 * sz)"
    unfolding 1 2 by blast
  have 4: "\<exists>s'. ?m = Inr (p, s')" if "sz \<le> rs \<and> (16 \<le> sz \<longrightarrow> rs \<le> 2 * sz) \<and> rs \<noteq> 0"
  proof -
    from that register_malloc_returns [of rs env wh p True "s\<lparr>superHeap := h\<rparr>"]
    obtain s2 where "?reg = Inr s2"
      by blast
    with that show ?thesis
      by (auto simp: m not_less)
  qed
  have 5: "unat sz < 2 ^ 63 \<longrightarrow> (rs \<le> 2 * sz \<longleftrightarrow> unat rs \<le> 2 * unat sz)"
    using twice_no_wrap [of sz rs] by blast
  have 6: "memalign env True wh alignment sz s = Inr (p, s\<lparr>superHeap := h\<rparr>)"
    using assms by (simp add: memalign_def Let_def)
  from 1 2 3 4 5 6 show ?thesis
    by blast
qed

theorem C4_witness:
  "memalign (fake_env 32) False in_python 16 8 (SampleHeap_init [4096] [] [])
     \<noteq> Inl Assert_realSize_ge_sz \<and>
   memalign (fake_env 32) False in_python 16 8 (SampleHeap_init [4096] [] [])
     \<noteq> Inl Assert_sz_lt_16_or_realSize_le_2sz \<and>
   memalign (fake_env 300) False in_python 16 100 (SampleHeap_init [4096] [] [])
     = Inl Assert_sz_lt_16_or_realSize_le_2sz"
proof -
  let ?s = "SampleHeap_init [4096] [] [] :: (ptr list, size_t list, size_t list) SampleHeap"
  have a: "SuperHeap_memalign (fake_env 32) (superHeap ?s) 16 8 = (4096, [])"
    and b: "(4096 :: ptr) \<noteq> 0"
    and c: "(32 :: size_t) = SuperHeap_getSize (fake_env 32) [] 4096"
    and a': "SuperHeap_memalign (fake_env 300) (superHeap ?s) 16 100 = (4096, [])"
    and c': "(300 :: size_t) = SuperHeap_getSize (fake_env 300) [] 4096"
    by (simp_all add: fake_env_def SampleHeap_init_def)
  have d: "(8 :: size_t) \<le> 32 \<and> ((16 :: size_t) \<le> 8 \<longrightarrow> (32 :: size_t) \<le> 2 * 8)"
    by simp
  have e: "(100 :: size_t) \<le> 300 \<and> (16 :: size_t) \<le> 100 \<and> \<not> (300 :: size_t) \<le> 2 * 100"
    by simp
  note A = C4_memalign_assertions [OF a b c, of in_python, THEN conjunct2, THEN conjunct2,
      THEN conjunct1, THEN iffD2, OF d]
  note B = C4_memalign_assertions [OF a' b c', of in_python, THEN conjunct2,
      THEN conjunct1, THEN iffD2, OF e]
  from A B show ?thesis
    by (simp only: simp_thms)
qed

text \<open>
  The claim as written fails in both directions. A request of 8 bytes served by a block of 32
  breaks the specification's condition and passes both assertions; a request of 100 bytes served
  by a block of 300 meets the specification's condition and fails the second assertion.
\<close>

theorem C4_counterexample:
  "\<not> spec_memalign_condition 8 32 \<and>
   \<not> isl (memalign (fake_env 32) False in_python 16 8 (SampleHeap_init [4096] [] [])) \<and>
   spec_memalign_condition 100 300 \<and>
   memalign (fake_env 300) False in_python 16 100 (SampleHeap_init [4096] [] [])
     = Inl Assert_sz_lt_16_or_realSize_le_2sz"
  by (simp add: spec_memalign_condition_def exec_simps)

subsection \<open>The origin flag\<close>

text \<open>
  Claim C10. A successful, non-nested \<^verbatim>\<open>memalign\<close> hands its delivered size to
  \<^verbatim>\<open>register_malloc\<close> with \<^verbatim>\<open>inPythonAllocator\<close> left at its default \<^verbatim>\<open>true\<close>, so the bytes are
  added to \<^verbatim>\<open>_pythonCount\<close>; \<^verbatim>\<open>malloc\<close> passes \<^verbatim>\<open>false\<close>, so the bytes are added to
  \<^verbatim>\<open>_cCount\<close>. When the sampler does not trigger, that is the whole change to the two counters;
  when it triggers, the trigger is handled on the state that holds the sum.
\<close>

theorem C10_origin_flag:
  "(SuperHeap_memalign env (superHeap s) alignment sz = (p, h) \<and> p \<noteq> 0 \<and>
    rs = SuperHeap_getSize env h p \<and> sz \<le> rs \<and> (sz < 16 \<or> rs \<le> 2 * sz) \<and> rs \<noteq> 0 \<and>
    mallocSampler_sample env (mallocSampler s) rs = (k, ms) \<longrightarrow>
      memalign env False wh alignment sz s =
        Inr (p, if k \<noteq> 0
                then process_malloc env wh k p
                       (s\<lparr>superHeap := h, mallocSampler := ms, pythonCount := pythonCount s + rs\<rparr>)
                else s\<lparr>superHeap := h, mallocSampler := ms, pythonCount := pythonCount s + rs\<rparr>) \<and>
      memalign env False wh alignment sz s =
        map_sum id (Pair p) (register_malloc env wh rs p True (s\<lparr>superHeap := h\<rparr>))) \<and>
   (SuperHeap_malloc env (superHeap s) sz = (p, h) \<and> p \<noteq> 0 \<and>
    rs = SuperHeap_getSize env h p \<and> rs \<noteq> 0 \<and>
    mallocSampler_sample env (mallocSampler s) rs = (k, ms) \<longrightarrow>
      malloc env False wh sz s =
        Inr (p, if k \<noteq> 0
                then process_malloc env wh k p
                       (s\<lparr>superHeap := h, mallocSampler := ms, cCount := cCount s + rs\<rparr>)
                else s\<lparr>superHeap := h, mallocSampler := ms, cCount := cCount s + rs\<rparr>) \<and>
      malloc env False wh sz s =
        map_sum id (Pair p) (register_malloc env wh rs p False (s\<lparr>superHeap := h\<rparr>)))"
proof -
  have reg: "register_malloc env wh rs p b t =
      Inr (if k \<noteq> 0
           then process_malloc env wh k p
                  (if b then t\<lparr>mallocSampler := ms, pythonCount := pythonCount t + rs\<rparr>
                   else t\<lparr>mallocSampler := ms, cCount := cCount t + rs\<rparr>)
           else (if b then t\<lparr>mallocSampler := ms, pythonCount := pythonCount t + rs\<rparr>
                 else t\<lparr>mallocSampler := ms, cCount := cCount t + rs\<rparr>))"
    if "rs \<noteq> 0" "mallocSampler_sample env (mallocSampler t) rs = (k, ms)"
    for b and t :: "('a, 'b, 'c) SampleHeap"
    using that by (simp add: register_malloc_def Let_def)
  have al: "memalign env False wh alignment sz s =
      map_sum id (Pair p) (register_malloc env wh rs p True (s\<lparr>superHeap := h\<rparr>))"
    if "SuperHeap_memalign env (superHeap s) alignment sz = (p, h)" "p \<noteq> 0"
      "rs = SuperHeap_getSize env h p" "sz \<le> rs" "sz < 16 \<or> rs \<le> 2 * sz"
    using that by (auto simp: memalign_def Let_def split: sum.splits)
  have ma: "malloc env False wh sz s =
      map_sum id (Pair p) (register_malloc env wh rs p False (s\<lparr>superHeap := h\<rparr>))"
    if "SuperHeap_malloc env (superHeap s) sz = (p, h)" "p \<noteq> 0"
      "rs = SuperHeap_getSize env h p" "rs \<noteq> 0"
    using that by (auto simp: malloc_def Let_def word_greater_zero_iff split: sum.splits)
  show ?thesis
  proof (intro conjI impI; elim conjE)
    assume h: "SuperHeap_memalign env (superHeap s) alignment sz = (p, h)" "p \<noteq> 0"
      "rs = SuperHeap_getSize env h p" "sz \<le> rs" "sz < 16 \<or> rs \<le> 2 * sz" "rs \<noteq> 0"
      "mallocSampler_sample env (mallocSampler s) rs = (k, ms)"
    show "memalign env False wh alignment sz s =
        map_sum id (Pair p) (register_malloc env wh rs p True (s\<lparr>superHeap := h\<rparr>))"
      by (rule al [OF h(1-5)])
    from h(6,7) show "memalign env False wh alignment sz s =
        Inr (p, if k \<noteq> 0
                then process_malloc env wh k p
                       (s\<lparr>superHeap := h, mallocSampler := ms, pythonCount := pythonCount s + rs\<rparr>)
                else s\<lparr>superHeap := h, mallocSampler := ms, pythonCount := pythonCount s + rs\<rparr>)"
      unfolding al [OF h(1-5)] by (subst reg) simp_all
  next
    assume h: "SuperHeap_malloc env (superHeap s) sz = (p, h)" "p \<noteq> 0"
      "rs = SuperHeap_getSize env h p" "rs \<noteq> 0"
      "mallocSampler_sample env (mallocSampler s) rs = (k, ms)"
    show "malloc env False wh sz s =
        map_sum id (Pair p) (register_malloc env wh rs p False (s\<lparr>superHeap := h\<rparr>))"
      by (rule ma [OF h(1-4)])
    from h(4,5) show "malloc env False wh sz s =
        Inr (p, if k \<noteq> 0
                then process_malloc env wh k p
                       (s\<lparr>superHeap := h, mallocSampler := ms, cCount := cCount s + rs\<rparr>)
                else s\<lparr>superHeap := h, mallocSampler := ms, cCount := cCount s + rs\<rparr>)"
      unfolding ma [OF h(1-4)] by (subst reg) simp_all
  qed
qed

theorem C10_witness:
  "map_sum id (pythonCount \<circ> snd)
     (memalign (fake_env 1024) False in_python 16 1000 (SampleHeap_init [4096] [] [])) = Inr 1024 \<and>
   map_sum id (cCount \<circ> snd)
     (memalign (fake_env 1024) False in_python 16 1000 (SampleHeap_init [4096] [] [])) = Inr 0 \<and>
   map_sum id (pythonCount \<circ> snd)
     (malloc (fake_env 1024) False in_python 1000 (SampleHeap_init [4096] [] [])) = Inr 0 \<and>
   map_sum id (cCount \<circ> snd)
     (malloc (fake_env 1024) False in_python 1000 (SampleHeap_init [4096] [] [])) = Inr 1024"
proof -
  let ?s = "SampleHeap_init [4096] [] [] :: (ptr list, size_t list, size_t list) SampleHeap"
  have a: "SuperHeap_memalign (fake_env 1024) (superHeap ?s) 16 1000 = (4096, []) \<and>
      (4096 :: ptr) \<noteq> 0 \<and> (1024 :: size_t) = SuperHeap_getSize (fake_env 1024) [] 4096 \<and>
      (1000 :: size_t) \<le> 1024 \<and> ((1000 :: size_t) < 16 \<or> (1024 :: size_t) \<le> 2 * 1000) \<and>
      (1024 :: size_t) \<noteq> 0 \<and>
      mallocSampler_sample (fake_env 1024) (mallocSampler ?s) 1024 = (0, [])"
    by (simp add: fake_env_def SampleHeap_init_def)
  have b: "SuperHeap_malloc (fake_env 1024) (superHeap ?s) 1000 = (4096, []) \<and>
      (4096 :: ptr) \<noteq> 0 \<and> (1024 :: size_t) = SuperHeap_getSize (fake_env 1024) [] 4096 \<and>
      (1024 :: size_t) \<noteq> 0 \<and>
      mallocSampler_sample (fake_env 1024) (mallocSampler ?s) 1024 = (0, [])"
    by (simp add: fake_env_def SampleHeap_init_def)
  note T = C10_origin_flag [of "fake_env 1024" ?s 16 1000 4096 "[]" 1024 0 "[]" in_python]
  note A = T [THEN conjunct1, THEN mp, OF a, THEN conjunct1]
  note B = T [THEN conjunct2, THEN mp, OF b, THEN conjunct1]
  show ?thesis
    unfolding A B by (simp add: SampleHeap_init_def)
qed

subsection \<open>Free triggers\<close>

lemma register_free_triggered:
  assumes "freeSampler_sample env (freeSampler s) rs = (k, fs)" and "k \<noteq> 0"
  shows "register_free env (Some (Some (fname, lno, bi))) rs q s =
     process_free env (Some (Some (fname, lno, bi))) k
       (s\<lparr>mallocSampler := mallocSampler_unsample env (mallocSampler s) rs,
          freeSampler := fs,
          freedLastMallocTrigger :=
            freedLastMallocTrigger s \<or> q \<noteq> 0 \<and> q = lastMallocTrigger s\<rparr>)"
  using assms by (auto simp: register_free_def Let_def)

text \<open>
  Claim C1, as the code has it. A non-nested \<^verbatim>\<open>free\<close> of a non-null pointer on which the free
  sampler triggers and the location resolves appends exactly one line. The line has kind \<open>f\<close>
  and reports the stored last-trigger address when the freed pointer equals that address, or
  when an earlier matching free has not been reported yet (the flag is still set); otherwise it
  has kind \<open>F\<close> and reports the null pointer, since \<^verbatim>\<open>process_free\<close> is not given the freed
  pointer and passes \<^verbatim>\<open>nullptr\<close> to \<^verbatim>\<open>writeCount\<close>.
\<close>

theorem C1_free_trigger_record:
  assumes "q \<noteq> 0"
    and "freeSampler_sample env (freeSampler s) (SuperHeap_getSize env (superHeap s) q) = (k, fs)"
    and "k \<noteq> 0"
  shows "\<exists>r. sampleFile (free env False (Some (Some (fname, lno, bi))) q s) = sampleFile s @ [r] \<and>
           rec_count r = k \<and>
           (if q = lastMallocTrigger s \<or> freedLastMallocTrigger s
            then rec_kind r = CHR ''f'' \<and> rec_ptr r = lastMallocTrigger s
            else rec_kind r = CHR ''F'' \<and> rec_ptr r = 0)"
  using assms(1)
  by (simp add: free_def Let_def register_free_triggered [OF assms(2,3)]
      process_free_resolved formatted_fields)

theorem C1_witness:
  "map rec_kind (sampleFile (free (fake_env 1024) False (Some (Some (''a.py'', 3, 0))) 4096
      ((SampleHeap_init [] [] [1024])\<lparr>lastMallocTrigger := 4096\<rparr>))) = ''f'' \<and>
   map rec_ptr (sampleFile (free (fake_env 1024) False (Some (Some (''a.py'', 3, 0))) 4096
      ((SampleHeap_init [] [] [1024])\<lparr>lastMallocTrigger := 4096\<rparr>))) = [4096] \<and>
   map rec_kind (sampleFile (free (fake_env 1024) False (Some (Some (''a.py'', 3, 0))) 8192
      ((SampleHeap_init [] [] [1024])\<lparr>lastMallocTrigger := 4096\<rparr>))) = ''F'' \<and>
   map rec_ptr (sampleFile (free (fake_env 1024) False (Some (Some (''a.py'', 3, 0))) 8192
      ((SampleHeap_init [] [] [1024])\<lparr>lastMallocTrigger := 4096\<rparr>))) = [0]"
proof -
  let ?s = "(SampleHeap_init [] [] [1024])\<lparr>lastMallocTrigger := 4096\<rparr>
              :: (ptr list, size_t list, size_t list) SampleHeap"
  have a: "(4096 :: ptr) \<noteq> 0" and a': "(8192 :: ptr) \<noteq> 0"
    and b: "freeSampler_sample (fake_env 1024) (freeSampler ?s)
              (SuperHeap_getSize (fake_env 1024) (superHeap ?s) 4096) = (1024, [])"
    and b': "freeSampler_sample (fake_env 1024) (freeSampler ?s)
              (SuperHeap_getSize (fake_env 1024) (superHeap ?s) 8192) = (1024, [])"
    and c: "(1024 :: size_t) \<noteq> 0"
    by (simp_all add: fake_env_def SampleHeap_init_def)
  have s: "sampleFile ?s = []" "lastMallocTrigger ?s = 4096" "\<not> freedLastMallocTrigger ?s"
    by (simp_all add: SampleHeap_init_def)
  from C1_free_trigger_record [OF a b c, of "''a.py''" 3 0]
  obtain r where r: "sampleFile (free (fake_env 1024) False (Some (Some (''a.py'', 3, 0))) 4096 ?s)
        = sampleFile ?s @ [r]"
      "rec_kind r = CHR ''f''" "rec_ptr r = lastMallocTrigger ?s"
    by (auto simp: SampleHeap_init_def)
  from C1_free_trigger_record [OF a' b' c, of "''a.py''" 3 0]
  obtain r' where r': "sampleFile (free (fake_env 1024) False (Some (Some (''a.py'', 3, 0))) 8192 ?s)
        = sampleFile ?s @ [r']"
      "rec_kind r' = CHR ''F''" "rec_ptr r' = 0"
    by (auto simp: SampleHeap_init_def)
  from r r' s show ?thesis
    by simp
qed

text \<open>
  The claim as written fails in both of its parts. First run: one block is allocated without a
  trigger and freed with one; the freed pointer 4096 differs from the stored address (null), and
  the line of kind \<open>F\<close> reports the null pointer, not 4096. Second run: the second of two
  allocations triggers (stored address 8192), it is freed without a free trigger, then the first
  block (4096) is freed with one: the freed pointer differs from the stored address, and the line
  has kind \<open>f\<close> and reports 8192.
\<close>

theorem C1_counterexample:
  "map_option (map rec_kind)
     (run_file (fake_env 1024)
        [(False, in_python, Malloc 1000), (False, in_python, Free 4096)]
        (SampleHeap_init [4096] [0] [1024])) = Some ''F'' \<and>
   map_option (map rec_ptr)
     (run_file (fake_env 1024)
        [(False, in_python, Malloc 1000), (False, in_python, Free 4096)]
        (SampleHeap_init [4096] [0] [1024])) = Some [0] \<and>
   map_option (map rec_kind)
     (run_file (fake_env 1024)
        [(False, in_python, Malloc 1000), (False, in_python, Malloc 1000),
         (False, in_python, Free 8192), (False, in_python, Free 4096)]
        (SampleHeap_init [4096, 8192] [0, 1024] [0, 1024])) = Some ''Mf'' \<and>
   map_option (map rec_ptr)
     (run_file (fake_env 1024)
        [(False, in_python, Malloc 1000), (False, in_python, Malloc 1000),
         (False, in_python, Free 8192), (False, in_python, Free 4096)]
        (SampleHeap_init [4096, 8192] [0, 1024] [0, 1024])) = Some [8192, 8192]"
  by (simp add: exec_simps)

subsection \<open>The flag of the last trigger\<close>

lemma freed_reports_append:
  "freed_reports (recs @ [r]) = freed_reports recs + (if rec_kind r = CHR ''f'' then 1 else 0)"
  by (simp add: freed_reports_def)

lemma register_malloc_flag:
  assumes "register_malloc env wh rs p b s = Inr s'"
  shows "(sampleFile s' = sampleFile s \<and> freedLastMallocTrigger s' = freedLastMallocTrigger s) \<or>
         (\<exists>r. sampleFile s' = sampleFile s @ [r] \<and> rec_kind r = CHR ''M'' \<and>
              \<not> freedLastMallocTrigger s')"
proof (cases wh rule: whereInPython_cases)
  case 1
  with assms show ?thesis
    by (auto simp: register_malloc_def Let_def process_malloc_unresolved [OF 1]
        split: if_splits prod.splits)
next
  case (2 fname lno bi)
  with assms show ?thesis
    by (auto simp: register_malloc_def Let_def process_malloc_resolved formatted_fields
        split: if_splits prod.splits)
qed

lemma register_free_flag:
  "(sampleFile (register_free env wh rs q s) = sampleFile s \<and>
    freedLastMallocTrigger (register_free env wh rs q s)
      = (freedLastMallocTrigger s \<or> q \<noteq> 0 \<and> q = lastMallocTrigger s)) \<or>
   (\<exists>r. sampleFile (register_free env wh rs q s) = sampleFile s @ [r] \<and>
        rec_kind r = (if freedLastMallocTrigger s \<or> q \<noteq> 0 \<and> q = lastMallocTrigger s
                      then CHR ''f'' else CHR ''F'') \<and>
        rec_ptr r = (if freedLastMallocTrigger s \<or> q \<noteq> 0 \<and> q = lastMallocTrigger s
                     then lastMallocTrigger s else 0) \<and>
        \<not> freedLastMallocTrigger (register_free env wh rs q s))"
proof (cases wh rule: whereInPython_cases)
  case 1
  show ?thesis
    by (auto simp: register_free_def Let_def process_free_unresolved [OF 1]
        split: if_splits prod.splits)
next
  case (2 fname lno bi)
  then show ?thesis
    by (auto simp: register_free_def Let_def process_free_resolved formatted_fields
        split: if_splits prod.splits)
qed

lemma api_step_flag:
  assumes "api_step env c s = Inr s'"
  shows "(sampleFile s' = sampleFile s \<and>
          (freedLastMallocTrigger s' \<longrightarrow> freedLastMallocTrigger s \<or> matching_free s c)) \<or>
         (\<exists>r. sampleFile s' = sampleFile s @ [r] \<and> \<not> freedLastMallocTrigger s' \<and>
              (rec_kind r = CHR ''f'' \<longrightarrow>
                 (freedLastMallocTrigger s \<or> matching_free s c) \<and>
                 rec_ptr r = lastMallocTrigger s))"
proof -
  obtain w wh cl where c: "c = (w, wh, cl)"
    by (cases c)
  show ?thesis
  proof (cases cl)
    case (Malloc sz)
    with assms c show ?thesis
      by (auto simp: malloc_def Let_def split: if_splits prod.splits sum.splits
          dest!: register_malloc_flag)
  next
    case (Free q)
    with assms c show ?thesis
      using register_free_flag [of env wh "SuperHeap_getSize env (superHeap s) q" q s]
      by (auto simp: free_def Let_def split: if_splits)
  next
    case (Memalign al sz)
    with assms c show ?thesis
      by (auto simp: memalign_def Let_def split: if_splits prod.splits sum.splits
          dest!: register_malloc_flag)
  qed
qed

lemma api_step_freed_reports:
  assumes "api_step env c s = Inr s'"
  shows "freed_reports (sampleFile s') + (if freedLastMallocTrigger s' then 1 else 0)
           \<le> freed_reports (sampleFile s) + (if freedLastMallocTrigger s then 1 else 0)
               + (if matching_free s c then 1 else 0)"
  using api_step_flag [OF assms]
  by (auto simp: freed_reports_append)

lemma run_freed_reports:
  "run env cs s = Inr s' \<Longrightarrow>
     freed_reports (sampleFile s') + (if freedLastMallocTrigger s' then 1 else 0)
       \<le> freed_reports (sampleFile s) + (if freedLastMallocTrigger s then 1 else 0)
           + matching_frees env cs s"
proof (induction cs arbitrary: s)
  case Nil
  then show ?case by simp
next
  case (Cons c cs)
  from Cons.prems obtain t where t: "api_step env c s = Inr t" and r: "run env cs t = Inr s'"
    by (auto split: sum.splits)
  from Cons.IH [OF r] api_step_freed_reports [OF t] t show ?case
    by simp
qed

text \<open>
  What clearing the flag in \<^verbatim>\<open>writeCount\<close> achieves. \<^verbatim>\<open>writeCount\<close> leaves the flag cleared,
  whatever line it writes. Over one call of the public interface: a call that appends a line
  leaves the flag cleared; the flag is set after a call only if the call appended no line and
  either the flag was set before or the call was a matching free; and a line of kind \<open>f\<close> is
  written only when the flag was set before the call or the call is a matching free, and it
  reports the stored last-trigger address. Hence, over any sequence of calls, the lines of kind
  \<open>f\<close> written (plus one if a report is still pending at the end) are at most as many as the
  matching frees met (plus one if a report was pending at the start): one free event is never
  reported twice.
\<close>

lemma flag_lifecycle:
  "\<not> freedLastMallocTrigger (writeCount env sig cnt p fname lno bi s) \<and>
   (api_step env c s = Inr s' \<longrightarrow>
      (sampleFile s' \<noteq> sampleFile s \<longrightarrow> \<not> freedLastMallocTrigger s') \<and>
      (freedLastMallocTrigger s' \<longrightarrow>
         sampleFile s' = sampleFile s \<and> (freedLastMallocTrigger s \<or> matching_free s c)) \<and>
      (\<forall>r. sampleFile s' = sampleFile s @ [r] \<and> rec_kind r = CHR ''f'' \<longrightarrow>
         (freedLastMallocTrigger s \<or> matching_free s c) \<and> rec_ptr r = lastMallocTrigger s)) \<and>
   (run env cs s = Inr s'' \<longrightarrow>
      freed_reports (sampleFile s'') + (if freedLastMallocTrigger s'' then 1 else 0)
        \<le> freed_reports (sampleFile s) + (if freedLastMallocTrigger s then 1 else 0)
            + matching_frees env cs s)"
proof (intro conjI impI)
  show "\<not> freedLastMallocTrigger (writeCount env sig cnt p fname lno bi s)"
    by (simp add: writeCount_flag)
next
  assume st: "api_step env c s = Inr s'"
  note fl = api_step_flag [OF st]
  {
    assume "sampleFile s' \<noteq> sampleFile s"
    with fl show "\<not> freedLastMallocTrigger s'"
      by blast
  next
    assume "freedLastMallocTrigger s'"
    with fl show "sampleFile s' = sampleFile s"
      by blast
  next
    assume "freedLastMallocTrigger s'"
    with fl show "freedLastMallocTrigger s \<or> matching_free s c"
      by blast
  next
    from fl show "\<forall>r. sampleFile s' = sampleFile s @ [r] \<and> rec_kind r = CHR ''f'' \<longrightarrow>
         (freedLastMallocTrigger s \<or> matching_free s c) \<and> rec_ptr r = lastMallocTrigger s"
      by auto
  }
next
  assume "run env cs s = Inr s''"
  then show "freed_reports (sampleFile s'') + (if freedLastMallocTrigger s'' then 1 else 0)
        \<le> freed_reports (sampleFile s) + (if freedLastMallocTrigger s then 1 else 0)
            + matching_frees env cs s"
    by (rule run_freed_reports)
qed

text \<open>
  Claim C2: the flag is set only between the free whose pointer matches the last malloc-trigger
  address and the write that reports it, that write clears it, and so the same trigger pointer
  is reported as freed (kind \<open>f\<close>) only on its first matching free. The code clears the flag
  after every write, under the comment \<^verbatim>\<open>Ensure we don't report last-malloc-freed multiple times\<close>,
  but it never clears \<^verbatim>\<open>_lastMallocTrigger\<close>, so the next free of that address sets the flag
  again. In the run below a block at 4096 is allocated with a malloc trigger and freed with a
  free trigger (lines \<open>M\<close> and \<open>f\<close>); the allocator hands the same address out again, this
  time without a malloc trigger, and the block is freed with a free trigger: the one trigger
  pointer is reported as freed a second time.
\<close>

theorem C2_reported_twice:
  "map_option (map rec_kind)
     (run_file (fake_env 1024)
        [(False, in_python, Malloc 1000), (False, in_python, Free 4096),
         (False, in_python, Malloc 1000), (False, in_python, Free 4096)]
        (SampleHeap_init [4096, 4096] [1024, 0] [1024, 1024])) = Some ''Mff'' \<and>
   map_option (map rec_ptr)
     (run_file (fake_env 1024)
        [(False, in_python, Malloc 1000), (False, in_python, Free 4096),
         (False, in_python, Malloc 1000), (False, in_python, Free 4096)]
        (SampleHeap_init [4096, 4096] [1024, 0] [1024, 1024])) = Some [4096, 4096, 4096]"
  by (simp add: exec_simps)

end
